theory Spec2Isabelle
  imports Complex_Main
begin

section \<open>Numbers, colours, materials and the scene graph\<close>

text \<open>
  A JavaScript \<open>number\<close> is an IEEE 754 binary64 value. A finite one is
  written as the rational it denotes; the two infinities and NaN are values of their own.
  The sign of zero is not kept (no operation used here can tell the two zeros apart).
\<close>

datatype number = Fin rat | PosInf | NegInf | NaN

text \<open>The number of binary digits of a positive integer.\<close>

function bitLength :: "int \<Rightarrow> nat" where
  "bitLength n = (if n \<le> 0 then 0 else Suc (bitLength (n div 2)))"
  by pat_completeness auto
termination
  by (relation "measure nat") auto

declare bitLength.simps [simp del]

definition pow2 :: "int \<Rightarrow> rat" where
  "pow2 k = (if 0 \<le> k then of_int (2 ^ nat k) else 1 / of_int (2 ^ nat (- k)))"

text \<open>
  \<open>pow2 k\<close> is two to the power \<open>k\<close>. For a positive rational \<open>x = a / b\<close> in
  lowest terms, \<open>floorLog2 x\<close> is the integer \<open>e\<close> with
  \<open>pow2 e \<le> x < pow2 (e + 1)\<close>: the difference \<open>d\<close> of the bit lengths of \<open>a\<close>
  and \<open>b\<close>, or one less.
\<close>

definition floorLog2 :: "rat \<Rightarrow> int" where
  "floorLog2 x =
     (case quotient_of x of
        (a, b) \<Rightarrow>
          (let d = int (bitLength a) - int (bitLength b)
           in if pow2 d \<le> x then d else d - 1))"

text \<open>The nearest integer, the even one of the two when \<open>x\<close> lies half-way.\<close>

definition roundTiesToEven :: "rat \<Rightarrow> int" where
  "roundTiesToEven x =
     (let f = \<lfloor>x\<rfloor>; d = x - of_int f
      in if d < 1 / 2 then f else if 1 / 2 < d then f + 1 else if even f then f else f + 1)"

text \<open>
  The binary64 value of an exact result \<open>x\<close>, rounding to nearest, ties to even:
  a significand of 53 bits, the unit in the last place \<open>pow2 q\<close> never below
  \<open>pow2 (- 1074)\<close> (subnormal numbers), and an infinity once the rounded magnitude
  reaches \<open>pow2 1024\<close>.
\<close>

definition roundToDouble :: "rat \<Rightarrow> number" where
  "roundToDouble x =
     (if x = 0 then Fin 0
      else (let q = max (floorLog2 \<bar>x\<bar>) (- 1022) - 52;
                y = of_int (roundTiesToEven (x / pow2 q)) * pow2 q
            in if of_int (2 ^ 1024) \<le> y then PosInf
               else if y \<le> - of_int (2 ^ 1024) then NegInf
               else Fin y))"

text \<open>The arithmetic operators \<open>+\<close>, \<open>-\<close>, \<open>*\<close> and the comparison \<open>\<le>\<close> on numbers.\<close>

fun number_add :: "number \<Rightarrow> number \<Rightarrow> number" where
  "number_add (Fin x) (Fin y) = roundToDouble (x + y)"
| "number_add NaN y = NaN"
| "number_add x NaN = NaN"
| "number_add PosInf NegInf = NaN"
| "number_add NegInf PosInf = NaN"
| "number_add PosInf y = PosInf"
| "number_add x PosInf = PosInf"
| "number_add NegInf y = NegInf"
| "number_add x NegInf = NegInf"

fun number_sub :: "number \<Rightarrow> number \<Rightarrow> number" where
  "number_sub (Fin x) (Fin y) = roundToDouble (x - y)"
| "number_sub NaN y = NaN"
| "number_sub x NaN = NaN"
| "number_sub PosInf PosInf = NaN"
| "number_sub NegInf NegInf = NaN"
| "number_sub PosInf y = PosInf"
| "number_sub x PosInf = NegInf"
| "number_sub NegInf y = NegInf"
| "number_sub x NegInf = PosInf"

fun number_mul :: "number \<Rightarrow> number \<Rightarrow> number" where
  "number_mul (Fin x) (Fin y) = roundToDouble (x * y)"
| "number_mul NaN y = NaN"
| "number_mul x NaN = NaN"
| "number_mul PosInf (Fin y) = (if y = 0 then NaN else if 0 < y then PosInf else NegInf)"
| "number_mul NegInf (Fin y) = (if y = 0 then NaN else if 0 < y then NegInf else PosInf)"
| "number_mul (Fin x) PosInf = (if x = 0 then NaN else if 0 < x then PosInf else NegInf)"
| "number_mul (Fin x) NegInf = (if x = 0 then NaN else if 0 < x then NegInf else PosInf)"
| "number_mul PosInf PosInf = PosInf"
| "number_mul PosInf NegInf = NegInf"
| "number_mul NegInf PosInf = NegInf"
| "number_mul NegInf NegInf = PosInf"

fun number_le :: "number \<Rightarrow> number \<Rightarrow> bool" where
  "number_le (Fin x) (Fin y) = (x \<le> y)"
| "number_le NaN y = False"
| "number_le x NaN = False"
| "number_le NegInf y = True"
| "number_le x PosInf = True"
| "number_le PosInf y = False"
| "number_le x NegInf = False"

text \<open>A rational is (the value of) a finite double when rounding leaves it as it is.\<close>

definition is_double :: "rat \<Rightarrow> bool" where
  "is_double x = (roundToDouble x = Fin x)"

type_synonym addr = nat

text \<open>A \<open>Color\<close> object of the scene-graph library: three number fields.\<close>

record Color =
  r :: number
  g :: number
  b :: number

datatype Side = FrontSide | BackSide | DoubleSide

text \<open>
  A texture handle: one made by \<open>TextureLoader.load(url)\<close> (the argument may be
  \<open>undefined\<close>), or the texture of a render target.
\<close>

datatype Texture = TextureFromUrl "string option" | RenderTargetTexture nat

record WebGLRenderTarget =
  texture :: Texture

text \<open>
  A material object. The field \<open>color\<close> holds the address of the material's
  \<open>Color\<close> object when the material has one.
\<close>

record Material =
  name :: string
  side :: Side
  map_texture :: "Texture option"
  normalMap :: "Texture option"
  envMap :: "Texture option"
  envMapIntensity :: number
  needsUpdate :: bool
  color :: "addr option"

text \<open>
  Materials and colours are mutable objects that several nodes and closures may share,
  so they live in a store and are referred to by address. \<open>nextMaterial\<close> and
  \<open>nextColor\<close> are the first addresses not yet in use.
\<close>

record store =
  materialAt :: "addr \<Rightarrow> Material"
  nextMaterial :: addr
  colorAt :: "addr \<Rightarrow> Color"
  nextColor :: addr

text \<open>
  The \<open>material\<close> property of a node: absent, one material, or an array of
  materials. The material-file branch of the loader can also leave there a value that
  is no material at all: the function or object that every plain object inherits from
  \<open>Object.prototype\<close> under the given key.
\<close>

datatype MaterialSlot =
  NoMaterial | SingleMaterial addr | MaterialArray "addr list" | InheritedValue string

text \<open>
  A scene-graph node. Every node belongs to one parent, so the graph is a tree.
\<close>

datatype Object3D =
  Object3D (isMesh: bool) (material: MaterialSlot) (receiveShadow: bool) (castShadow: bool)
    (children: "Object3D list")

text \<open>\<open>new Group()\<close>: no geometry, no material, shadow flags off, no children.\<close>

definition new_Group :: Object3D where
  "new_Group = Object3D False NoMaterial False False []"

text \<open>
  \<open>Object3D.traverse(callback)\<close> calls the callback on the node itself and then
  traverses each child in order; \<open>traverse\<close> lists the nodes in the order of the
  calls.
\<close>

fun traverse :: "Object3D \<Rightarrow> Object3D list" where
  "traverse (Object3D im m rs cs ch) = Object3D im m rs cs ch # concat (map traverse ch)"

text \<open>\<open>new Color(r, g, b)\<close> and \<open>color.clone()\<close> allocate a fresh colour object.\<close>

definition new_Color :: "Color \<Rightarrow> store \<Rightarrow> addr \<times> store" where
  "new_Color c st =
     (nextColor st, st\<lparr>colorAt := (colorAt st)(nextColor st := c), nextColor := Suc (nextColor st)\<rparr>)"

text \<open>\<open>color.setRGB(r, g, b)\<close> overwrites the three fields of the object in place.\<close>

definition setRGB :: "addr \<Rightarrow> number \<Rightarrow> number \<Rightarrow> number \<Rightarrow> store \<Rightarrow> store" where
  "setRGB a r' g' b' st = st\<lparr>colorAt := (colorAt st)(a := \<lparr>r = r', g = g', b = b'\<rparr>)\<rparr>"

text \<open>
  \<open>new MeshPhongMaterial({})\<close>: a fresh material with the library's defaults and a
  fresh white colour object of its own.
\<close>

definition new_MeshPhongMaterial :: "store \<Rightarrow> addr \<times> store" where
  "new_MeshPhongMaterial st =
     (case new_Color \<lparr>r = Fin 1, g = Fin 1, b = Fin 1\<rparr> st of
        (c, st1) \<Rightarrow>
          (nextMaterial st1,
           st1\<lparr>materialAt := (materialAt st1)(nextMaterial st1 :=
                   \<lparr>name = [], side = FrontSide, map_texture = None, normalMap = None,
                    envMap = None, envMapIntensity = Fin 1, needsUpdate = False,
                    color = Some c\<rparr>),
               nextMaterial := Suc (nextMaterial st1)\<rparr>))"

section \<open>Active event registry (utility/ProductItemUtility.ts)\<close>

text \<open>
  The enumeration \<open>ActiveProductItemEventType\<close> is declared outside the sources; the
  only member the sources name is \<open>ColorChange\<close>. The remaining members are kept
  apart by a number.
\<close>

datatype ActiveProductItemEventType = ColorChange | OtherEventType nat

text \<open>
  An active event is a handle \<open>{ type, cancelEvent }\<close>. The callback
  \<open>cancelEvent\<close> is created elsewhere and is opaque here: it is a state transformer on
  the part of the program state that lies outside the entity's list of active events
  (type variable \<open>'w\<close>).
\<close>

record 'w ActiveProductItemEvent =
  type :: ActiveProductItemEventType
  cancelEvent :: "bool \<Rightarrow> 'w \<Rightarrow> 'w"

record 'w ProductItem =
  thumbnail :: string
  hasFloor :: bool
  activeEvents :: "'w ActiveProductItemEvent list"

text \<open>\<open>Array.prototype.splice(i, 1)\<close>: removes the element at index \<open>i\<close>.\<close>

definition splice1 :: "nat \<Rightarrow> 'a list \<Rightarrow> 'a list" where
  "splice1 i xs = take i xs @ drop (Suc i) xs"

text \<open>
  The \<open>for\<close> loop of \<open>clearEvents\<close>: the index \<open>i\<close> advances only past an
  entry that is kept; a matching entry is cancelled and spliced out, and the index stays.
\<close>

function clearEvents_loop ::
  "nat \<Rightarrow> 'w ActiveProductItemEvent list \<Rightarrow> ActiveProductItemEventType list \<Rightarrow> bool \<Rightarrow> 'w
    \<Rightarrow> 'w ActiveProductItemEvent list \<times> 'w" where
  "clearEvents_loop i evs types completeEvent w =
     (if i < length evs then
        (let event = evs ! i in
         if type event \<notin> set types
         then clearEvents_loop (i + 1) evs types completeEvent w
         else clearEvents_loop i (splice1 i evs) types completeEvent
                (cancelEvent event completeEvent w))
      else (evs, w))"
  by pat_completeness auto
termination
  by (relation "measure (\<lambda>(i, evs, types, completeEvent, w). length evs - i)")
     (auto simp: splice1_def)

declare clearEvents_loop.simps [simp del]

definition clearEvents ::
  "'w ProductItem \<Rightarrow> ActiveProductItemEventType list \<Rightarrow> bool \<Rightarrow> 'w \<Rightarrow> 'w ProductItem \<times> 'w" where
  "clearEvents productItem types completeEvent w =
     (case clearEvents_loop 0 (activeEvents productItem) types completeEvent w of
        (evs, w') \<Rightarrow> (productItem\<lparr>activeEvents := evs\<rparr>, w'))"

section \<open>Asset loader (MeshLoader.ts)\<close>

text \<open>
  The descriptor types \<open>Model3D\<close>, \<open>MaterialInfo\<close> and
  \<open>ModelLoadedEventData\<close> are declared outside the sources; their fields are the
  ones the loader reads and writes. Optional fields are options.
\<close>

record MaterialInfo =
  mtl :: "string option"
  renderBackface :: "bool option"
  diffuseTexture :: "string option"
  normalTexture :: "string option"

record Model3D =
  filename :: string
  materialInfo :: MaterialInfo

record ModelLoadedEventData =
  object :: "Object3D option"
  model :: Model3D

text \<open>JavaScript truthiness of an optional string and of an optional flag.\<close>

definition truthy_string :: "string option \<Rightarrow> bool" where
  "truthy_string s = (case s of None \<Rightarrow> False | Some v \<Rightarrow> v \<noteq> [])"

definition truthy_flag :: "bool option \<Rightarrow> bool" where
  "truthy_flag f = (case f of None \<Rightarrow> False | Some v \<Rightarrow> v)"

text \<open>
  The state of a promise once the event loop has run dry: resolved with a value,
  rejected, or never settled.
\<close>

datatype 'a Promise = Resolved 'a | Rejected | Pending

datatype error = TypeError

record GLTF =
  scenes :: "Object3D list"

text \<open>
  The collaborators of the loader. Each field says what the collaborator hands to its
  \<open>onLoad\<close> callback for a URL, \<open>None\<close> when the callback is never called
  (the loader passes no \<open>onError\<close>). \<open>mtlLoader\<close> gives the own properties of
  the plain object \<open>materialCreator.materials\<close> after \<open>preload()\<close>, one for each
  material the creator has made; the materials it names are in the store. \<open>loadEnvironment\<close> is the environment map cache; \<open>None\<close>
  stands for a promise that is not fulfilled.
\<close>

record Loaders =
  objLoader :: "string \<Rightarrow> Object3D option"
  mtlLoader :: "string \<Rightarrow> (string \<rightharpoonup> addr) option"
  gltfLoader :: "string \<Rightarrow> GLTF option"
  loadEnvironment :: "string \<Rightarrow> WebGLRenderTarget option"

text \<open>\<open>String.prototype.split(sep)\<close> for a one-character separator.\<close>

fun split_str :: "char \<Rightarrow> string \<Rightarrow> string list" where
  "split_str sep [] = [[]]"
| "split_str sep (c # cs) =
     (if c = sep then [] # split_str sep cs
      else (case split_str sep cs of [] \<Rightarrow> [[c]] | p # ps \<Rightarrow> (c # p) # ps))"

text \<open>\<open>String.prototype.toLowerCase()\<close> on ASCII text.\<close>

definition toLowerCase_char :: "char \<Rightarrow> char" where
  "toLowerCase_char c =
     (let n = (of_char c :: nat) in if 65 \<le> n \<and> n \<le> 90 then char_of (n + 32) else c)"

definition toLowerCase :: "string \<Rightarrow> string" where
  "toLowerCase s = map toLowerCase_char s"

definition set_material :: "MaterialSlot \<Rightarrow> Object3D \<Rightarrow> Object3D" where
  "set_material m obj =
     Object3D (isMesh obj) m (receiveShadow obj) (castShadow obj) (children obj)"

definition set_children :: "Object3D list \<Rightarrow> Object3D \<Rightarrow> Object3D" where
  "set_children ch obj =
     Object3D (isMesh obj) (material obj) (receiveShadow obj) (castShadow obj) ch"

fun setReceiveShadows :: "Object3D list \<Rightarrow> Object3D list" where
  "setReceiveShadows [] = []"
| "setReceiveShadows (Object3D im m rs cs ch # rest) =
     Object3D im m True True (setReceiveShadows ch) # setReceiveShadows rest"

text \<open>
  \<open>(mesh.material as Material).side = DoubleSide\<close> under \<open>if (mesh.material)\<close>:
  a single material is changed in the store; on an array of materials, or on an
  inherited function or object, the assignment sets a property of that value and
  changes no material.
\<close>

definition setDoubleSide :: "MaterialSlot \<Rightarrow> store \<Rightarrow> store" where
  "setDoubleSide slot st =
     (case slot of
        SingleMaterial a \<Rightarrow> st\<lparr>materialAt := (materialAt st)(a := (materialAt st a)\<lparr>side := DoubleSide\<rparr>)\<rparr>
      | _ \<Rightarrow> st)"

fun trySetBackfaceRendering :: "Object3D list \<Rightarrow> store \<Rightarrow> store" where
  "trySetBackfaceRendering [] st = st"
| "trySetBackfaceRendering (Object3D im m rs cs ch # rest) st =
     trySetBackfaceRendering rest (trySetBackfaceRendering ch (setDoubleSide m st))"

definition setEnvironment :: "MaterialSlot \<Rightarrow> WebGLRenderTarget \<Rightarrow> store \<Rightarrow> store" where
  "setEnvironment slot target st =
     (case slot of
        SingleMaterial a \<Rightarrow>
          st\<lparr>materialAt := (materialAt st)(a := (materialAt st a)
                \<lparr>envMap := Some (texture target), envMapIntensity := Fin (1 / 16),
                 needsUpdate := True\<rparr>)\<rparr>
      | _ \<Rightarrow> st)"

fun trySetEnvironmentTexture :: "Object3D list \<Rightarrow> WebGLRenderTarget \<Rightarrow> store \<Rightarrow> store" where
  "trySetEnvironmentTexture [] target st = st"
| "trySetEnvironmentTexture (Object3D im m rs cs ch # rest) target st =
     trySetEnvironmentTexture rest target
       (trySetEnvironmentTexture ch target (setEnvironment m target st))"

text \<open>
  The keys that a plain object (\<open>{}\<close>) answers without having them as own
  properties: the properties of \<open>Object.prototype\<close>. Each of them is a function,
  except \<open>__proto__\<close>, which reads as \<open>Object.prototype\<close> itself; all are truthy.
\<close>

definition objectPrototypeKeys :: "string list" where
  "objectPrototypeKeys =
     [''constructor'', ''hasOwnProperty'', ''isPrototypeOf'', ''propertyIsEnumerable'',
      ''toLocaleString'', ''toString'', ''valueOf'', ''__proto__'',
      ''__defineGetter__'', ''__defineSetter__'', ''__lookupGetter__'', ''__lookupSetter__'']"

text \<open>
  \<open>materialCreator.materials[name]\<close>: the property read on a plain object whose own
  properties are the materials of the file. An own property wins; a key that is not
  an own property is looked up in \<open>Object.prototype\<close>; \<open>NoMaterial\<close> stands for
  \<open>undefined\<close>.
\<close>

definition getProperty :: "(string \<rightharpoonup> addr) \<Rightarrow> string \<Rightarrow> MaterialSlot" where
  "getProperty own key =
     (case own key of
        Some a \<Rightarrow> SingleMaterial a
      | None \<Rightarrow> if key \<in> set objectPrototypeKeys then InheritedValue key else NoMaterial)"

text \<open>
  \<open>(mesh.material as Material).name\<close>: reading \<open>name\<close> of an absent material
  throws; an array has no \<open>name\<close>, and the \<open>undefined\<close> read there becomes the
  key \<open>"undefined"\<close> of the dictionary lookup. An inherited function has its own key
  as \<open>name\<close>, except the function \<open>Object\<close> found under \<open>constructor\<close>; the
  object found under \<open>__proto__\<close> has no \<open>name\<close>.
\<close>

definition materialName :: "MaterialSlot \<Rightarrow> store \<Rightarrow> error + string" where
  "materialName slot st =
     (case slot of
        NoMaterial \<Rightarrow> Inl TypeError
      | SingleMaterial a \<Rightarrow> Inr (name (materialAt st a))
      | MaterialArray ms \<Rightarrow> Inr ''undefined''
      | InheritedValue key \<Rightarrow>
          Inr (if key = ''constructor'' then ''Object''
               else if key = ''__proto__'' then ''undefined'' else key))"

text \<open>
  The \<open>forEach\<close> over the children in the material-file branch. The cast
  \<open>child as Mesh\<close> does nothing at run time and an object is never falsy, so no
  child is skipped. Whatever truthy value the property read finds is assigned.
\<close>

fun assignNamedMaterials ::
  "(string \<rightharpoonup> addr) \<Rightarrow> store \<Rightarrow> Object3D list \<Rightarrow> error + Object3D list" where
  "assignNamedMaterials materialCreator st [] = Inr []"
| "assignNamedMaterials materialCreator st (child # rest) =
     (case materialName (material child) st of
        Inl e \<Rightarrow> Inl e
      | Inr n \<Rightarrow>
          (let child' = (case getProperty materialCreator n of
                           NoMaterial \<Rightarrow> child
                         | found \<Rightarrow> set_material found child)
           in case assignNamedMaterials materialCreator st rest of
                Inl e \<Rightarrow> Inl e
              | Inr rest' \<Rightarrow> Inr (child' # rest')))"

text \<open>
  \<open>loadMaterial\<close> changes the node in place and resolves with no value; the model
  resolves with the changed node and store. An exception thrown inside the loader's
  callback leaves the promise unsettled.
\<close>

definition loadMaterial ::
  "Loaders \<Rightarrow> Object3D \<Rightarrow> MaterialInfo \<Rightarrow> store \<Rightarrow> (Object3D \<times> store) Promise" where
  "loadMaterial L obj info st =
     (if truthy_string (mtl info) then
        (case mtlLoader L (the (mtl info)) of
           None \<Rightarrow> Pending
         | Some materialCreator \<Rightarrow>
             (case assignNamedMaterials materialCreator st (children obj) of
                Inl e \<Rightarrow> Pending
              | Inr ch \<Rightarrow>
                  (let obj' = set_children ch obj
                   in Resolved (obj',
                        if truthy_flag (renderBackface info)
                        then trySetBackfaceRendering [obj'] st else st))))
      else
        (case new_MeshPhongMaterial st of
           (m, st1) \<Rightarrow>
             (let st2 = st1\<lparr>materialAt := (materialAt st1)(m := (materialAt st1 m)
                           \<lparr>map_texture := Some (TextureFromUrl (diffuseTexture info))\<rparr>)\<rparr>;
                  st3 = (if truthy_string (normalTexture info)
                         then st2\<lparr>materialAt := (materialAt st2)(m := (materialAt st2 m)
                                \<lparr>normalMap := Some (TextureFromUrl (normalTexture info))\<rparr>)\<rparr>
                         else st2);
                  obj' = set_children (map (set_material (SingleMaterial m)) (children obj)) obj
              in Resolved (obj',
                   if truthy_flag (renderBackface info)
                   then trySetBackfaceRendering [obj'] st3 else st3))))"

text \<open>
  \<open>await\<close> inside an \<open>async\<close> callback or executor: when the awaited promise
  rejects, the callback's own promise rejects and \<open>resolve\<close> is never reached, so
  the promise under construction stays unsettled. \<open>reject\<close> is called nowhere.
\<close>

definition loadObj ::
  "Loaders \<Rightarrow> string \<Rightarrow> MaterialInfo \<Rightarrow> store \<Rightarrow> (Object3D \<times> store) Promise" where
  "loadObj L file info st =
     (case objLoader L file of
        None \<Rightarrow> Pending
      | Some grp \<Rightarrow>
          (case loadMaterial L grp info st of
             Resolved (grp', st') \<Rightarrow> Resolved (hd (setReceiveShadows [grp']), st')
           | Rejected \<Rightarrow> Pending
           | Pending \<Rightarrow> Pending))"

definition environmentMapUrl :: string where
  "environmentMapUrl = ''assets/models/pbr/Soft_4TubeBank_2BlackFlags.exr''"

definition loadGlTF ::
  "Loaders \<Rightarrow> string \<Rightarrow> MaterialInfo \<Rightarrow> store \<Rightarrow> (Object3D \<times> store) Promise" where
  "loadGlTF L file info st =
     (case gltfLoader L file of
        None \<Rightarrow> Pending
      | Some gltfObject \<Rightarrow>
          (case loadEnvironment L environmentMapUrl of
             None \<Rightarrow> Pending
           | Some target \<Rightarrow>
               (let added = concat (map children (scenes gltfObject));
                    ch = setReceiveShadows added;
                    st1 = trySetEnvironmentTexture ch target st;
                    st2 = (if truthy_flag (renderBackface info)
                           then trySetBackfaceRendering ch st1 else st1)
                in Resolved (set_children ch new_Group, st2))))"

text \<open>
  The extension \<open>loadMesh\<close> dispatches on: the last of the parts of the file name
  between dots, in lower case. \<open>split\<close> returns at least one part.
\<close>

definition fileExtension :: "string \<Rightarrow> string" where
  "fileExtension file =
     (let fileParts = split_str CHR ''.'' file in toLowerCase (last fileParts))"

definition loadMesh ::
  "Loaders \<Rightarrow> Model3D \<Rightarrow> store \<Rightarrow> (ModelLoadedEventData \<times> store) Promise" where
  "loadMesh L mdl st =
     (let fileExtension = fileExtension (filename mdl)
      in if fileExtension = ''obj'' then
           (case loadObj L (filename mdl) (materialInfo mdl) st of
              Resolved (obj, st') \<Rightarrow> Resolved (\<lparr>object = Some obj, model = mdl\<rparr>, st')
            | Rejected \<Rightarrow> Pending
            | Pending \<Rightarrow> Pending)
         else if fileExtension = ''gltf'' then
           (case loadGlTF L (filename mdl) (materialInfo mdl) st of
              Resolved (obj, st') \<Rightarrow> Resolved (\<lparr>object = Some obj, model = mdl\<rparr>, st')
            | Rejected \<Rightarrow> Pending
            | Pending \<Rightarrow> Pending)
         else Resolved (\<lparr>object = None, model = mdl\<rparr>, st))"

section \<open>Material colour changer (MaterialAnimators/MaterialColorChanger.ts)\<close>

text \<open>
  The enumeration \<open>MaterialAnimationType\<close> and the event data are declared outside
  the sources. The handler names the members \<open>None\<close> and \<open>Linear\<close>; any other
  member is kept apart by a number. Of the event the changer reads an optional list of
  materials, an optional subtree root, the target colour (a colour object) and the
  product item, whose type is left open.
\<close>

datatype MaterialAnimationType = AnimationNone | AnimationLinear | AnimationOther nat

record 'p MaterialColorSwapEventData =
  animationType :: MaterialAnimationType
  productItem :: 'p
  materials :: "addr list option"
  rootObject :: "Object3D option"
  targetColor :: addr

record AnimatableColorItem =
  startColor :: addr
  deltaColor :: addr
  itemMaterial :: addr

text \<open>
  Modelled from the spec: \<open>isColorMaterial\<close> of utility/MaterialUtility, which is not
  among the sources. It is the capability test "does this material support flat-colour
  assignment": the material has a colour.
\<close>

definition isColorMaterial :: "Material \<Rightarrow> bool" where
  "isColorMaterial m = (color m \<noteq> None)"

text \<open>
  The loop of \<open>tryAddAnimatableItems\<close>. The delta colour is allocated first, then
  the clone of the material's colour; \<open>push\<close> appends at the end.
\<close>

fun tryAddAnimatableItems ::
  "addr list \<Rightarrow> AnimatableColorItem list \<Rightarrow> addr \<Rightarrow> store
    \<Rightarrow> AnimatableColorItem list \<times> store" where
  "tryAddAnimatableItems [] items target st = (items, st)"
| "tryAddAnimatableItems (m # ms) items target st =
     (if \<not> isColorMaterial (materialAt st m) then tryAddAnimatableItems ms items target st
      else
        (let c = the (color (materialAt st m));
             (d, st1) = new_Color
                \<lparr>r = number_sub (r (colorAt st target)) (r (colorAt st c)),
                 g = number_sub (g (colorAt st target)) (g (colorAt st c)),
                 b = number_sub (b (colorAt st target)) (b (colorAt st c))\<rparr> st;
             (s, st2) = new_Color (colorAt st1 c) st1
         in tryAddAnimatableItems ms
              (items @ [\<lparr>startColor = s, deltaColor = d, itemMaterial = m\<rparr>]) target st2))"

declare tryAddAnimatableItems.simps(2) [simp del]

text \<open>
  \<open>Array.isArray(mesh.material) ? mesh.material : [mesh.material]\<close>. A mesh always
  carries a material; for a mesh-flagged node without one the capability test would be
  handed \<open>undefined\<close>, which the model takes as a type error. An inherited function
  or object is no material of the store and has no colour, so it fails the capability
  test; the model hands on no material for it.
\<close>

definition meshMaterials :: "MaterialSlot \<Rightarrow> error + addr list" where
  "meshMaterials slot =
     (case slot of
        NoMaterial \<Rightarrow> Inl TypeError
      | SingleMaterial m \<Rightarrow> Inr [m]
      | MaterialArray ms \<Rightarrow> Inr ms
      | InheritedValue key \<Rightarrow> Inr [])"

text \<open>The callback of \<open>rootObject.traverse\<close>, run over the nodes in visiting order.\<close>

fun visitNodes ::
  "Object3D list \<Rightarrow> AnimatableColorItem list \<Rightarrow> addr \<Rightarrow> store
    \<Rightarrow> error + AnimatableColorItem list \<times> store" where
  "visitNodes [] items target st = Inr (items, st)"
| "visitNodes (mesh # nodes) items target st =
     (if \<not> isMesh mesh then visitNodes nodes items target st
      else
        (case meshMaterials (material mesh) of
           Inl e \<Rightarrow> Inl e
         | Inr ms \<Rightarrow>
             (case tryAddAnimatableItems ms items target st of
                (items', st') \<Rightarrow> visitNodes nodes items' target st')))"

definition getAnimatableItems ::
  "'p MaterialColorSwapEventData \<Rightarrow> store \<Rightarrow> error + AnimatableColorItem list \<times> store" where
  "getAnimatableItems event st =
     (case (case materials event of
              Some ms \<Rightarrow> tryAddAnimatableItems ms [] (targetColor event) st
            | None \<Rightarrow> ([], st)) of
        (items, st1) \<Rightarrow>
          (case rootObject event of
             Some rootObj \<Rightarrow> visitNodes (traverse rootObj) items (targetColor event) st1
           | None \<Rightarrow> Inr (items, st1)))"

text \<open>
  The closure \<open>doProgress\<close> over the items. The colour object written to is the one
  the material refers to at the time of the call.
\<close>

fun doProgress :: "AnimatableColorItem list \<Rightarrow> number \<Rightarrow> store \<Rightarrow> error + store" where
  "doProgress [] progress st = Inr st"
| "doProgress (item # items) progress st =
     (let r' = number_add (r (colorAt st (startColor item)))
                 (number_mul progress (r (colorAt st (deltaColor item))));
          g' = number_add (g (colorAt st (startColor item)))
                 (number_mul progress (g (colorAt st (deltaColor item))));
          b' = number_add (b (colorAt st (startColor item)))
                 (number_mul progress (b (colorAt st (deltaColor item))))
      in case color (materialAt st (itemMaterial item)) of
           None \<Rightarrow> Inl TypeError
         | Some c \<Rightarrow> doProgress items progress (setRGB c r' g' b' st))"

declare doProgress.simps(2) [simp del]

text \<open>
  \<open>createAnimation\<close> (MaterialAnimators/CreateAnimation, not among the sources) and the
  host's \<open>requestAnimationFrame\<close> are parameters: \<open>createAnimation\<close> takes the
  product item, the event type, the duration and the progress callback and gives back
  the tick function; both act on the host state \<open>'h\<close>.
\<close>

definition changeColorLinearly ::
  "('p \<Rightarrow> ActiveProductItemEventType \<Rightarrow> number \<Rightarrow> (number \<Rightarrow> store \<Rightarrow> error + store) \<Rightarrow> 'h \<Rightarrow> 'a \<times> 'h)
    \<Rightarrow> ('a \<Rightarrow> 'h \<Rightarrow> 'h)
    \<Rightarrow> 'p MaterialColorSwapEventData \<Rightarrow> number \<Rightarrow> store \<Rightarrow> 'h \<Rightarrow> error + store \<times> 'h" where
  "changeColorLinearly createAnimation requestAnimationFrame event duration st h =
     (case getAnimatableItems event st of
        Inl e \<Rightarrow> Inl e
      | Inr (items, st1) \<Rightarrow>
          (if number_le duration (Fin 0) then
             (case doProgress items (Fin 1) st1 of
                Inl e \<Rightarrow> Inl e
              | Inr st2 \<Rightarrow> Inr (st2, h))
           else
             (case createAnimation (productItem event) ColorChange duration (doProgress items) h of
                (animate, h1) \<Rightarrow> Inr (st1, requestAnimationFrame animate h1))))"

text \<open>The subscription to \<open>material_ColorSwap\<close> set up by the constructor.\<close>

definition material_ColorSwap_handler ::
  "('p \<Rightarrow> ActiveProductItemEventType \<Rightarrow> number \<Rightarrow> (number \<Rightarrow> store \<Rightarrow> error + store) \<Rightarrow> 'h \<Rightarrow> 'a \<times> 'h)
    \<Rightarrow> ('a \<Rightarrow> 'h \<Rightarrow> 'h)
    \<Rightarrow> 'p MaterialColorSwapEventData \<Rightarrow> store \<Rightarrow> 'h \<Rightarrow> error + store \<times> 'h" where
  "material_ColorSwap_handler createAnimation requestAnimationFrame event st h =
     (case animationType event of
        AnimationNone \<Rightarrow>
          changeColorLinearly createAnimation requestAnimationFrame event (Fin 0) st h
      | AnimationLinear \<Rightarrow>
          changeColorLinearly createAnimation requestAnimationFrame event (Fin 250) st h
      | AnimationOther k \<Rightarrow> Inr (st, h))"

section \<open>Notions used in the statements\<close>

text \<open>A node is marked both shadow-receiving and shadow-casting.\<close>

definition shadowsOn :: "Object3D \<Rightarrow> bool" where
  "shadowsOn n = (receiveShadow n \<and> castShadow n)"

text \<open>The scene subtree a load promise delivered, if it resolved with one.\<close>

definition resolvedObject :: "(ModelLoadedEventData \<times> store) Promise \<Rightarrow> Object3D option" where
  "resolvedObject p = (case p of Resolved (d, st) \<Rightarrow> object d | Rejected \<Rightarrow> None | Pending \<Rightarrow> None)"

text \<open>The node carries one material or a list of materials.\<close>

definition carriesMaterial :: "Object3D \<Rightarrow> bool" where
  "carriesMaterial n =
     (case material n of
        SingleMaterial a \<Rightarrow> True | MaterialArray ms \<Rightarrow> True
      | NoMaterial \<Rightarrow> False | InheritedValue key \<Rightarrow> False)"

text \<open>What the direct children of a delivered subtree have in their material property.\<close>

definition childMaterials :: "Object3D option \<Rightarrow> MaterialSlot list" where
  "childMaterials obj = (case obj of None \<Rightarrow> [] | Some n \<Rightarrow> map material (children n))"

text \<open>Target minus start, and start plus progress times delta, channel by channel.\<close>

definition colorDifference :: "Color \<Rightarrow> Color \<Rightarrow> Color" where
  "colorDifference t s =
     \<lparr>r = number_sub (r t) (r s), g = number_sub (g t) (g s), b = number_sub (b t) (b s)\<rparr>"

definition startPlusProgressDelta :: "Color \<Rightarrow> Color \<Rightarrow> number \<Rightarrow> Color" where
  "startPlusProgressDelta s d p =
     \<lparr>r = number_add (r s) (number_mul p (r d)),
      g = number_add (g s) (number_mul p (g d)),
      b = number_add (b s) (number_mul p (b d))\<rparr>"

text \<open>
  Two finite channel values whose difference is itself a double, so that computing it
  loses nothing.
\<close>

definition exactDifference :: "number \<Rightarrow> number \<Rightarrow> bool" where
  "exactDifference t s =
     (case (t, s) of
        (Fin x, Fin y) \<Rightarrow> is_double x \<and> is_double y \<and> is_double (x - y)
      | _ \<Rightarrow> False)"

definition exactColorDifference :: "Color \<Rightarrow> Color \<Rightarrow> bool" where
  "exactColorDifference t s =
     (exactDifference (r t) (r s) \<and> exactDifference (g t) (g s) \<and> exactDifference (b t) (b s))"

text \<open>The materials of a node when it is a renderable surface, none otherwise.\<close>

definition surfaceMaterials :: "Object3D \<Rightarrow> addr list" where
  "surfaceMaterials n =
     (if isMesh n
      then (case material n of
              NoMaterial \<Rightarrow> [] | SingleMaterial m \<Rightarrow> [m] | MaterialArray ms \<Rightarrow> ms
            | InheritedValue key \<Rightarrow> [])
      else [])"

text \<open>Every mesh of the subtree carries a material.\<close>

definition meshesHaveMaterial :: "Object3D option \<Rightarrow> bool" where
  "meshesHaveMaterial rootObj =
     (case rootObj of
        None \<Rightarrow> True
      | Some n \<Rightarrow> list_all (\<lambda>mesh. isMesh mesh \<longrightarrow> material mesh \<noteq> NoMaterial) (traverse n))"

text \<open>
  The colour object of every material is an allocated one: the store has no reference
  to an address that \<open>new Color\<close> has yet to hand out.
\<close>

definition colorsAllocated :: "store \<Rightarrow> bool" where
  "colorsAllocated st = (\<forall>m c. color (materialAt st m) = Some c \<longrightarrow> c < nextColor st)"

text \<open>
  The colour held by colour object \<open>a\<close> after the items of an event have been
  built and one tick has run with the given progress.
\<close>

definition colorAfterTick ::
  "'p MaterialColorSwapEventData \<Rightarrow> store \<Rightarrow> number \<Rightarrow> addr \<Rightarrow> Color option" where
  "colorAfterTick event st p a =
     (case getAnimatableItems event st of
        Inl e \<Rightarrow> None
      | Inr (items, st1) \<Rightarrow>
          (case doProgress items p st1 of Inl e \<Rightarrow> None | Inr st2 \<Rightarrow> Some (colorAt st2 a)))"

text \<open>
  The colour held by colour object \<open>a\<close> after \<open>changeColorLinearly\<close> has
  returned.
\<close>

definition colorAfterChange ::
  "('p \<Rightarrow> ActiveProductItemEventType \<Rightarrow> number \<Rightarrow> (number \<Rightarrow> store \<Rightarrow> error + store) \<Rightarrow> 'h \<Rightarrow> 'a \<times> 'h)
    \<Rightarrow> ('a \<Rightarrow> 'h \<Rightarrow> 'h)
    \<Rightarrow> 'p MaterialColorSwapEventData \<Rightarrow> number \<Rightarrow> store \<Rightarrow> 'h \<Rightarrow> addr \<Rightarrow> Color option" where
  "colorAfterChange createAnimation requestAnimationFrame event duration st h a =
     (case changeColorLinearly createAnimation requestAnimationFrame event duration st h of
        Inl e \<Rightarrow> None
      | Inr (st2, h2) \<Rightarrow> Some (colorAt st2 a))"

section \<open>Auxiliary notions for the proofs\<close>

text \<open>
  The store after the two allocations \<open>tryAddAnimatableItems\<close> makes for a material
  with colour object \<open>c\<close>.
\<close>

definition withItemColors :: "addr \<Rightarrow> addr \<Rightarrow> store \<Rightarrow> store" where
  "withItemColors target c st =
     st\<lparr>colorAt := (colorAt st)
           (nextColor st := colorDifference (colorAt st target) (colorAt st c),
            Suc (nextColor st) :=
              ((colorAt st)(nextColor st := colorDifference (colorAt st target) (colorAt st c))) c),
        nextColor := Suc (Suc (nextColor st))\<rparr>"

text \<open>
  \<open>st\<close> comes from \<open>st0\<close> by allocating colour objects only: same materials, and
  the colour objects of \<open>st0\<close> unchanged.
\<close>

definition extendsStore :: "store \<Rightarrow> store \<Rightarrow> bool" where
  "extendsStore st0 st =
     (materialAt st = materialAt st0 \<and> nextMaterial st = nextMaterial st0
      \<and> nextColor st0 \<le> nextColor st
      \<and> (\<forall>a < nextColor st0. colorAt st a = colorAt st0 a))"

text \<open>
  In \<open>st\<close> the item holds, in two colour objects allocated after \<open>st0\<close>, the colour
  its material had in \<open>st0\<close> and the difference to the target colour of \<open>st0\<close>.
\<close>

definition itemSnapshot :: "store \<Rightarrow> addr \<Rightarrow> store \<Rightarrow> AnimatableColorItem \<Rightarrow> bool" where
  "itemSnapshot st0 target st it =
     (\<exists>c. color (materialAt st0 (itemMaterial it)) = Some c
        \<and> nextColor st0 \<le> startColor it \<and> startColor it < nextColor st
        \<and> nextColor st0 \<le> deltaColor it \<and> deltaColor it < nextColor st
        \<and> colorAt st (startColor it) = colorAt st0 c
        \<and> colorAt st (deltaColor it) = colorDifference (colorAt st0 target) (colorAt st0 c))"

section \<open>Example inputs\<close>

definition example_material :: "string \<Rightarrow> addr option \<Rightarrow> Material" where
  "example_material n c =
     \<lparr>name = n, side = FrontSide, map_texture = None, normalMap = None, envMap = None,
      envMapIntensity = Fin 1, needsUpdate = False, color = c\<rparr>"

text \<open>
  Three materials: \<open>0\<close> and \<open>1\<close> are the ones a loaded group comes with,
  \<open>2\<close> is the material a material file defines under the name \<open>wood\<close>.
\<close>

definition example_store :: store where
  "example_store =
     \<lparr>materialAt = (\<lambda>a. example_material [] None)
        (0 := example_material ''wood'' (Some 0),
         1 := example_material ''steel'' (Some 1),
         2 := example_material ''wood'' (Some 2)),
      nextMaterial = 3,
      colorAt = (\<lambda>a. \<lparr>r = Fin 0, g = Fin 0, b = Fin 0\<rparr>)
        (1 := \<lparr>r = Fin (1 / 2), g = Fin (1 / 2), b = Fin (1 / 2)\<rparr>,
         2 := \<lparr>r = Fin (3 / 4), g = Fin (1 / 2), b = Fin (1 / 4)\<rparr>),
      nextColor = 3\<rparr>"

definition example_group :: Object3D where
  "example_group =
     Object3D False NoMaterial False False
       [Object3D True (SingleMaterial 0) False False [],
        Object3D True (SingleMaterial 1) False False []]"

definition example_loaders :: Loaders where
  "example_loaders =
     \<lparr>objLoader = (\<lambda>f. if f = ''chair.obj'' then Some example_group else None),
      mtlLoader = (\<lambda>f. if f = ''chair.mtl'' then Some [''wood'' \<mapsto> 2] else None),
      gltfLoader = (\<lambda>f. if f = ''lamp.gltf'' then Some \<lparr>scenes = [example_group]\<rparr> else None),
      loadEnvironment = (\<lambda>u. Some \<lparr>texture = RenderTargetTexture 0\<rparr>)\<rparr>"

definition example_mtl_info :: MaterialInfo where
  "example_mtl_info =
     \<lparr>mtl = Some ''chair.mtl'', renderBackface = None, diffuseTexture = None,
      normalTexture = None\<rparr>"

definition example_texture_info :: MaterialInfo where
  "example_texture_info =
     \<lparr>mtl = None, renderBackface = None, diffuseTexture = Some ''wood.png'',
      normalTexture = None\<rparr>"

definition example_fbx_model :: Model3D where
  "example_fbx_model = \<lparr>filename = ''models/chair.FBX'', materialInfo = example_mtl_info\<rparr>"

definition example_obj_mtl_model :: Model3D where
  "example_obj_mtl_model = \<lparr>filename = ''chair.obj'', materialInfo = example_mtl_info\<rparr>"

definition example_obj_texture_model :: Model3D where
  "example_obj_texture_model = \<lparr>filename = ''chair.obj'', materialInfo = example_texture_info\<rparr>"

definition example_gltf_model :: Model3D where
  "example_gltf_model = \<lparr>filename = ''lamp.gltf'', materialInfo = example_texture_info\<rparr>"

text \<open>
  A loaded group for the lookup by name: two meshes with one material each
  (\<open>wood\<close> and \<open>steel\<close>), a mesh with the two materials \<open>wood\<close> and
  \<open>steel\<close>, and a mesh whose material is named \<open>constructor\<close> (material
  \<open>3\<close>). The material file defines \<open>wood\<close> only.
\<close>

definition lookup_store :: store where
  "lookup_store =
     example_store\<lparr>materialAt := (materialAt example_store)
                      (3 := example_material ''constructor'' None),
                   nextMaterial := 4\<rparr>"

definition lookup_group :: Object3D where
  "lookup_group =
     Object3D False NoMaterial False False
       [Object3D True (SingleMaterial 0) False False [],
        Object3D True (SingleMaterial 1) False False [],
        Object3D True (MaterialArray [0, 1]) False False [],
        Object3D True (SingleMaterial 3) False False []]"

definition lookup_materials :: "string \<rightharpoonup> addr" where
  "lookup_materials = [''wood'' \<mapsto> 2]"

definition lookup_loaders :: Loaders where
  "lookup_loaders =
     \<lparr>objLoader = (\<lambda>f. if f = ''chair.obj'' then Some lookup_group else None),
      mtlLoader = (\<lambda>f. if f = ''chair.mtl'' then Some lookup_materials else None),
      gltfLoader = (\<lambda>f. None),
      loadEnvironment = (\<lambda>u. None)\<rparr>"

text \<open>
  A subtree with a group at the root, a mesh with one material, and a nested group
  holding a mesh with two materials, the second of which (material \<open>3\<close>) has no
  colour. The event names material \<open>0\<close> explicitly as well; its target colour is
  the colour object \<open>2\<close>.
\<close>

definition example_scene :: Object3D where
  "example_scene =
     Object3D False NoMaterial False False
       [Object3D True (SingleMaterial 0) False False [],
        Object3D False NoMaterial False False
          [Object3D True (MaterialArray [1, 3]) False False []]]"

definition example_event :: "unit MaterialColorSwapEventData" where
  "example_event =
     \<lparr>animationType = AnimationNone, productItem = (), materials = Some [0],
      rootObject = Some example_scene, targetColor = 2\<rparr>"

text \<open>The items and the store that \<open>getAnimatableItems\<close> makes of the example event.\<close>

definition example_items :: "AnimatableColorItem list" where
  "example_items =
     [\<lparr>startColor = 4, deltaColor = 3, itemMaterial = 0\<rparr>,
      \<lparr>startColor = 6, deltaColor = 5, itemMaterial = 0\<rparr>,
      \<lparr>startColor = 8, deltaColor = 7, itemMaterial = 1\<rparr>]"

definition example_store1 :: store where
  "example_store1 = withItemColors 2 1 (withItemColors 2 0 (withItemColors 2 0 example_store))"

text \<open>A host that records the calls made to it.\<close>

definition log_createAnimation ::
  "unit \<Rightarrow> ActiveProductItemEventType \<Rightarrow> number \<Rightarrow> (number \<Rightarrow> store \<Rightarrow> error + store)
    \<Rightarrow> string list \<Rightarrow> unit \<times> string list" where
  "log_createAnimation p t d f h = ((), h @ [''createAnimation''])"

definition log_requestAnimationFrame :: "unit \<Rightarrow> string list \<Rightarrow> string list" where
  "log_requestAnimationFrame a h = h @ [''requestAnimationFrame'']"

text \<open>
  The doubles that the literals \<open>0.2\<close>, \<open>0.9\<close> and \<open>0.7\<close> denote, and the
  double just below that of \<open>0.9\<close> (printed \<open>0.8999999999999999\<close>). One grey material of colour
  \<open>(0.2, 0.2, 0.2)\<close> and a target colour \<open>(0.9, 0.9, 0.9)\<close>.
\<close>

definition double_0_2 :: rat where
  "double_0_2 = 3602879701896397 / 18014398509481984"

definition double_0_9 :: rat where
  "double_0_9 = 8106479329266893 / 9007199254740992"

definition double_0_7 :: rat where
  "double_0_7 = 3152519739159347 / 4503599627370496"

definition below_0_9 :: rat where
  "below_0_9 = 2026619832316723 / 2251799813685248"

definition rounding_store :: store where
  "rounding_store =
     \<lparr>materialAt = (\<lambda>a. example_material [] None)(0 := example_material ''paint'' (Some 0)),
      nextMaterial = 1,
      colorAt = (\<lambda>a. \<lparr>r = Fin double_0_2, g = Fin double_0_2, b = Fin double_0_2\<rparr>)
        (1 := \<lparr>r = Fin double_0_9, g = Fin double_0_9, b = Fin double_0_9\<rparr>),
      nextColor = 2\<rparr>"

definition rounding_event :: "unit MaterialColorSwapEventData" where
  "rounding_event =
     \<lparr>animationType = AnimationNone, productItem = (), materials = Some [0],
      rootObject = None, targetColor = 1\<rparr>"

text \<open>
  The scenario of the specification: one material of colour \<open>(0, 0, 0)\<close> and the
  target colour \<open>(1, 0, 0)\<close>.
\<close>

definition scenario_store :: store where
  "scenario_store =
     \<lparr>materialAt = (\<lambda>a. example_material [] None)(0 := example_material ''m'' (Some 0)),
      nextMaterial = 1,
      colorAt = (\<lambda>a. \<lparr>r = Fin 0, g = Fin 0, b = Fin 0\<rparr>)
        (1 := \<lparr>r = Fin 1, g = Fin 0, b = Fin 0\<rparr>),
      nextColor = 2\<rparr>"

definition scenario_event :: "unit MaterialColorSwapEventData" where
  "scenario_event =
     \<lparr>animationType = AnimationLinear, productItem = (), materials = Some [0],
      rootObject = None, targetColor = 1\<rparr>"

section \<open>Properties of the number model\<close>

lemma bitLength_bounds:
  "0 < n \<Longrightarrow> 2 ^ (bitLength n - 1) \<le> n \<and> n < 2 ^ bitLength n"
proof (induction n rule: bitLength.induct)
  case (1 n)
  show ?case
  proof (cases "n div 2 \<le> 0")
    case True
    with "1.prems" have "n = 1" by linarith
    then show ?thesis by (simp add: bitLength.simps)
  next
    case False
    then have pos: "0 < n div 2" by simp
    with "1.IH" "1.prems" have ih: "2 ^ (bitLength (n div 2) - 1) \<le> n div 2"
      "n div 2 < 2 ^ bitLength (n div 2)" by simp_all
    from pos have bl: "0 < bitLength (n div 2)" by (subst bitLength.simps) simp
    have eq: "bitLength n = Suc (bitLength (n div 2))"
      using "1.prems" by (subst bitLength.simps) simp
    from bl have "(2::int) ^ bitLength (n div 2) = 2 * 2 ^ (bitLength (n div 2) - 1)"
      by (cases "bitLength (n div 2)") simp_all
    with ih show ?thesis unfolding eq by (simp) linarith
  qed
qed

lemma roundTiesToEven_nearest: "\<bar>x - of_int (roundTiesToEven x)\<bar> \<le> 1 / 2"
proof -
  define f where "f = \<lfloor>x\<rfloor>"
  have b: "of_int f \<le> x" "x < of_int f + 1" unfolding f_def by linarith+
  have "roundTiesToEven x = f \<and> x - of_int f \<le> 1 / 2
      \<or> roundTiesToEven x = f + 1 \<and> 1 / 2 \<le> x - of_int f"
    unfolding roundTiesToEven_def Let_def f_def[symmetric] by auto
  with b show ?thesis by (auto simp: abs_if)
qed

lemma pow2_pos: "0 < pow2 k"
  by (simp add: pow2_def)

lemma pow2_Suc: "pow2 (k + 1) = 2 * pow2 k"
proof (cases "0 \<le> k")
  case True
  then show ?thesis by (simp add: pow2_def nat_add_distrib)
next
  case False
  then have "nat (- k) = Suc (nat (- (k + 1)))" by simp
  then show ?thesis using False by (simp add: pow2_def)
qed

lemma pow2_diff_nat: "pow2 (int m - int n) = 2 ^ m / 2 ^ n"
proof (induction m arbitrary: n)
  case 0
  show ?case by (simp add: pow2_def)
next
  case (Suc m)
  have "pow2 (int (Suc m) - int n) = pow2 ((int m - int n) + 1)" by (simp add: algebra_simps)
  also have "\<dots> = 2 * pow2 (int m - int n)" by (rule pow2_Suc)
  finally show ?case by (simp add: Suc.IH)
qed

lemma ratio_lower:
  assumes "0 < den" "2 ^ (la - 1) \<le> num" "den < 2 ^ lb" "0 < la"
  shows "pow2 (int la - int lb - 1) \<le> of_int num / of_int den"
proof -
  have e: "int la - int lb - 1 = int (la - 1) - int lb" using assms(4) by (simp add: of_nat_diff)
  have "pow2 (int la - int lb - 1) = pow2 (int (la - 1) - int lb)" by (simp only: e)
  also have "\<dots> = 2 ^ (la - 1) / 2 ^ lb" by (rule pow2_diff_nat)
  also have "\<dots> \<le> of_int num / of_int den"
  proof -
    have "(of_int (2 ^ (la - 1)) :: rat) \<le> of_int num" using assms(2) by (simp only: of_int_le_iff)
    then have 1: "(2::rat) ^ (la - 1) \<le> of_int num" by simp
    have "(of_int den :: rat) < of_int (2 ^ lb)" using assms(3) by (simp only: of_int_less_iff)
    then have 2: "(of_int den :: rat) \<le> 2 ^ lb" by simp
    have 3: "(0::rat) < of_int den" using assms(1) by simp
    have "(0::rat) \<le> 2 ^ (la - 1)" by simp
    with 1 have 4: "(0::rat) \<le> of_int num" by (rule order_trans[rotated])
    from frac_le[OF 4 1 3 2] show ?thesis .
  qed
  finally show ?thesis .
qed

lemma ratio_upper:
  assumes "0 \<le> num" "num < 2 ^ la" "2 ^ (lb - 1) \<le> den" "0 < lb"
  shows "of_int num / of_int den < pow2 (int la - int lb + 1)"
proof -
  have "of_int num / of_int den < (2::rat) ^ la / 2 ^ (lb - 1)"
  proof -
    have "(of_int num :: rat) < of_int (2 ^ la)" using assms(2) by (simp only: of_int_less_iff)
    then have 1: "(of_int num :: rat) < 2 ^ la" by simp
    have "(of_int (2 ^ (lb - 1)) :: rat) \<le> of_int den" using assms(3) by (simp only: of_int_le_iff)
    then have 2: "(2::rat) ^ (lb - 1) \<le> of_int den" by simp
    have 3: "(0::rat) \<le> of_int num" using assms(1) by simp
    have 4: "(0::rat) < 2 ^ (lb - 1)" by simp
    from frac_less[OF 3 1 4 2] show ?thesis .
  qed
  also have "\<dots> = pow2 (int la - int (lb - 1))" by (rule pow2_diff_nat[symmetric])
  finally have lt: "of_int num / of_int den < pow2 (int la - int (lb - 1))" .
  have eq: "int la - int (lb - 1) = int la - int lb + 1"
    using assms(4) by (simp add: of_nat_diff)
  show ?thesis using lt unfolding eq .
qed

lemma floorLog2_bounds:
  assumes "0 < x"
  shows "pow2 (floorLog2 x) \<le> x \<and> x < pow2 (floorLog2 x + 1)"
proof -
  obtain num den where q: "quotient_of x = (num, den)" by (cases "quotient_of x")
  have den: "0 < den" using quotient_of_denom_pos[OF q] .
  have x: "x = of_int num / of_int den" using quotient_of_div[OF q] .
  have num: "0 < num"
  proof (rule ccontr)
    assume "\<not> 0 < num"
    then have "(of_int num :: rat) \<le> 0" by simp
    moreover have "(0::rat) < of_int den" using den by simp
    ultimately have "of_int num / of_int den \<le> (0::rat)" by (simp add: divide_le_0_iff)
    then have "x \<le> 0" unfolding x .
    with assms show False by simp
  qed
  define la lb where "la = bitLength num" and "lb = bitLength den"
  from bitLength_bounds[OF num] bitLength_bounds[OF den]
  have ba: "2 ^ (la - 1) \<le> num" "num < 2 ^ la" and bb: "2 ^ (lb - 1) \<le> den" "den < 2 ^ lb"
    by (simp_all add: la_def lb_def)
  from num ba(2) have la: "0 < la" by (cases la) simp_all
  from den bb(2) have lb: "0 < lb" by (cases lb) simp_all
  let ?d = "int la - int lb"
  have lo: "pow2 (?d - 1) \<le> x"
    unfolding x using ratio_lower[OF den ba(1) bb(2) la] .
  have hi: "x < pow2 (?d + 1)"
    unfolding x using ratio_upper[OF less_imp_le[OF num] ba(2) bb(1) lb] .
  have fl: "floorLog2 x = (if pow2 ?d \<le> x then ?d else ?d - 1)"
    unfolding floorLog2_def q la_def lb_def by (simp add: Let_def)
  show ?thesis
  proof (cases "pow2 ?d \<le> x")
    case True
    with fl hi show ?thesis by simp
  next
    case False
    with fl have e: "floorLog2 x = ?d - 1" by simp
    from False have "x < pow2 (?d - 1 + 1)" by simp
    with lo show ?thesis unfolding e by blast
  qed
qed


lemma roundTiesToEven_tie: "x - of_int \<lfloor>x\<rfloor> = 1 / 2 \<Longrightarrow> even (roundTiesToEven x)"
  by (simp add: roundTiesToEven_def Let_def)

text \<open>
  A finite result of rounding is a multiple of the unit in the last place and lies within
  half a unit of the exact value.
\<close>

lemma roundToDouble_nearest:
  assumes "roundToDouble x = Fin y" and "x \<noteq> 0"
  shows "y = of_int (roundTiesToEven (x / pow2 (max (floorLog2 \<bar>x\<bar>) (- 1022) - 52)))
               * pow2 (max (floorLog2 \<bar>x\<bar>) (- 1022) - 52)
       \<and> \<bar>x - y\<bar> \<le> pow2 (max (floorLog2 \<bar>x\<bar>) (- 1022) - 52) / 2"
proof -
  define q where "q = max (floorLog2 \<bar>x\<bar>) (- 1022) - 52"
  define n where "n = roundTiesToEven (x / pow2 q)"
  from assms have y: "y = of_int n * pow2 q"
    by (simp add: roundToDouble_def Let_def q_def n_def split: if_splits)
  have p: "0 < pow2 q" by (rule pow2_pos)
  have "\<bar>x / pow2 q - of_int n\<bar> \<le> 1 / 2"
    unfolding n_def by (rule roundTiesToEven_nearest)
  then have "\<bar>x / pow2 q - of_int n\<bar> * pow2 q \<le> 1 / 2 * pow2 q"
    using p by (intro mult_right_mono) simp_all
  moreover have "\<bar>x / pow2 q - of_int n\<bar> * pow2 q = \<bar>x - of_int n * pow2 q\<bar>"
  proof -
    have "\<bar>x / pow2 q - of_int n\<bar> * pow2 q = \<bar>(x / pow2 q - of_int n) * pow2 q\<bar>"
      using p by (simp add: abs_mult)
    also have "(x / pow2 q - of_int n) * pow2 q = x - of_int n * pow2 q"
      using p by (simp add: field_simps)
    finally show ?thesis .
  qed
  ultimately have "\<bar>x - y\<bar> \<le> pow2 q / 2" by (simp add: y)
  with y show ?thesis by (simp add: q_def n_def)
qed

section \<open>Properties of the active event registry\<close>

text \<open>
  The loop started at index \<open>i\<close> keeps the first \<open>i\<close> entries, keeps of the rest
  those whose type is not requested, and runs the cancel callbacks of the others from
  left to right.
\<close>

lemma clearEvents_loop_eq:
  "i \<le> length evs \<Longrightarrow> clearEvents_loop i evs types completeEvent w =
     (take i evs @ filter (\<lambda>e. type e \<notin> set types) (drop i evs),
      fold (\<lambda>e. cancelEvent e completeEvent) (filter (\<lambda>e. type e \<in> set types) (drop i evs)) w)"
proof (induction i evs types completeEvent w rule: clearEvents_loop.induct)
  case (1 i evs types completeEvent w)
  show ?case
  proof (cases "i < length evs")
    case False
    with "1.prems" show ?thesis by (subst clearEvents_loop.simps) simp
  next
    case True
    then have dr: "drop i evs = evs ! i # drop (Suc i) evs"
      by (simp add: Cons_nth_drop_Suc)
    show ?thesis
    proof (cases "type (evs ! i) \<in> set types")
      case False
      with True have "clearEvents_loop i evs types completeEvent w
          = clearEvents_loop (i + 1) evs types completeEvent w"
        by (subst clearEvents_loop.simps) (simp add: Let_def)
      also have "\<dots> = (take (i + 1) evs @ filter (\<lambda>e. type e \<notin> set types) (drop (i + 1) evs),
          fold (\<lambda>e. cancelEvent e completeEvent) (filter (\<lambda>e. type e \<in> set types) (drop (i + 1) evs)) w)"
        using "1.IH"(1)[OF True refl] False True by simp
      finally show ?thesis using False True dr by (simp add: take_Suc_conv_app_nth)
    next
      case mem: True
      have len: "i \<le> length (splice1 i evs)" using True by (simp add: splice1_def)
      have dr2: "drop i (splice1 i evs) = drop (Suc i) evs" using True by (simp add: splice1_def)
      have tk2: "take i (splice1 i evs) = take i evs" using True by (simp add: splice1_def)
      from True mem have "clearEvents_loop i evs types completeEvent w
          = clearEvents_loop i (splice1 i evs) types completeEvent (cancelEvent (evs ! i) completeEvent w)"
        by (subst clearEvents_loop.simps) (simp add: Let_def)
      also have "\<dots> = (take i (splice1 i evs) @ filter (\<lambda>e. type e \<notin> set types) (drop i (splice1 i evs)),
          fold (\<lambda>e. cancelEvent e completeEvent) (filter (\<lambda>e. type e \<in> set types) (drop i (splice1 i evs)))
            (cancelEvent (evs ! i) completeEvent w))"
        using "1.IH"(2)[OF True refl _ len] mem by simp
      finally show ?thesis using mem dr by (simp add: dr2 tk2)
    qed
  qed
qed

lemma clearEvents_eq:
  "clearEvents pItem types completeEvent w =
     (pItem\<lparr>activeEvents := filter (\<lambda>e. type e \<notin> set types) (activeEvents pItem)\<rparr>,
      fold (\<lambda>e. cancelEvent e completeEvent)
        (filter (\<lambda>e. type e \<in> set types) (activeEvents pItem)) w)"
  by (simp add: clearEvents_def clearEvents_loop_eq)

text \<open>
  Claim C3. For every entity, every list of categories and every flag, \<open>clearEvents\<close>
  calls \<open>cancelEvent(completeEvent)\<close> on each active event whose type is among the
  requested ones (in list order) and removes exactly those entries; the entries of every
  other type stay in the list, unchanged and in their order. When no entry matches, the
  entity and the rest of the state come back as they were. The function has no error
  result.
\<close>

theorem clearEvents_removes_exactly_matching:
  "clearEvents pItem types completeEvent w =
     (pItem\<lparr>activeEvents := filter (\<lambda>e. type e \<notin> set types) (activeEvents pItem)\<rparr>,
      fold (\<lambda>e. cancelEvent e completeEvent)
        (filter (\<lambda>e. type e \<in> set types) (activeEvents pItem)) w)
   \<and> ((\<forall>e \<in> set (activeEvents pItem). type e \<notin> set types)
        \<longrightarrow> clearEvents pItem types completeEvent w = (pItem, w))"
proof -
  have "filter (\<lambda>e. type e \<notin> set types) (activeEvents pItem) = activeEvents pItem
      \<and> filter (\<lambda>e. type e \<in> set types) (activeEvents pItem) = []"
    if "\<forall>e \<in> set (activeEvents pItem). type e \<notin> set types"
    using that by (simp add: filter_empty_conv)
  then show ?thesis by (simp add: clearEvents_eq)
qed

theorem clearEvents_removes_exactly_matching_witness:
  "(let ev1 = \<lparr>type = ColorChange, cancelEvent = (\<lambda>b w. w @ [(1::nat, b)])\<rparr>;
        ev2 = \<lparr>type = OtherEventType 0, cancelEvent = (\<lambda>b w. w @ [(2::nat, b)])\<rparr>;
        ev3 = \<lparr>type = ColorChange, cancelEvent = (\<lambda>b w. w @ [(3::nat, b)])\<rparr>;
        p = \<lparr>thumbnail = ''chair.png'', hasFloor = True, activeEvents = [ev1, ev2, ev3]\<rparr>
    in clearEvents p [ColorChange] True [] = (p\<lparr>activeEvents := [ev2]\<rparr>, [(1, True), (3, True)])
     \<and> list_all (\<lambda>e. type e \<notin> set [OtherEventType 5]) (activeEvents p)
     \<and> clearEvents p [OtherEventType 5] True [] = (p, []))"
  using clearEvents_removes_exactly_matching
          [of "\<lparr>thumbnail = ''chair.png'', hasFloor = True, activeEvents =
                 [\<lparr>type = ColorChange, cancelEvent = (\<lambda>b w. w @ [(1::nat, b)])\<rparr>,
                  \<lparr>type = OtherEventType 0, cancelEvent = (\<lambda>b w. w @ [(2::nat, b)])\<rparr>,
                  \<lparr>type = ColorChange, cancelEvent = (\<lambda>b w. w @ [(3::nat, b)])\<rparr>]\<rparr>"
              "[ColorChange]" True "[]"]
        clearEvents_removes_exactly_matching
          [of "\<lparr>thumbnail = ''chair.png'', hasFloor = True, activeEvents =
                 [\<lparr>type = ColorChange, cancelEvent = (\<lambda>b w. w @ [(1::nat, b)])\<rparr>,
                  \<lparr>type = OtherEventType 0, cancelEvent = (\<lambda>b w. w @ [(2::nat, b)])\<rparr>,
                  \<lparr>type = ColorChange, cancelEvent = (\<lambda>b w. w @ [(3::nat, b)])\<rparr>]\<rparr>"
              "[OtherEventType 5]" True "[]"]
  by (simp add: Let_def)

section \<open>Properties of the asset loader\<close>

lemma setReceiveShadows_length: "length (setReceiveShadows xs) = length xs"
  by (induction xs rule: setReceiveShadows.induct) simp_all

lemma setReceiveShadows_material: "map material (setReceiveShadows xs) = map material xs"
  by (induction xs rule: setReceiveShadows.induct) simp_all

lemma setReceiveShadows_isMesh: "map isMesh (setReceiveShadows xs) = map isMesh xs"
  by (induction xs rule: setReceiveShadows.induct) simp_all

lemma setReceiveShadows_flags:
  "n \<in> set (concat (map traverse (setReceiveShadows xs))) \<Longrightarrow> receiveShadow n \<and> castShadow n"
  by (induction xs arbitrary: n rule: setReceiveShadows.induct) auto

lemma setReceiveShadows_single:
  "hd (setReceiveShadows [obj]) =
     Object3D (isMesh obj) (material obj) True True (setReceiveShadows (children obj))"
  by (cases obj) simp

lemma setDoubleSide_frame:
  "nextMaterial (setDoubleSide m st) = nextMaterial st"
  "map_texture (materialAt (setDoubleSide m st) a) = map_texture (materialAt st a)"
  "normalMap (materialAt (setDoubleSide m st) a) = normalMap (materialAt st a)"
  by (simp_all add: setDoubleSide_def split: MaterialSlot.splits)

lemma trySetBackfaceRendering_frame:
  "nextMaterial (trySetBackfaceRendering xs st) = nextMaterial st"
  "map_texture (materialAt (trySetBackfaceRendering xs st) a) = map_texture (materialAt st a)"
  "normalMap (materialAt (trySetBackfaceRendering xs st) a) = normalMap (materialAt st a)"
  by (induction xs st rule: trySetBackfaceRendering.induct) (simp_all add: setDoubleSide_frame)

lemma loadObj_of_loadMaterial:
  "objLoader L file = Some grp \<Longrightarrow> loadMaterial L grp info st = Resolved (grp', st') \<Longrightarrow>
   loadObj L file info st
     = Resolved (Object3D (isMesh grp') (material grp') True True (setReceiveShadows (children grp')), st')"
  by (simp add: loadObj_def setReceiveShadows_single)

lemma loadObj_resolved:
  "loadObj L file info st = Resolved (obj, st') \<Longrightarrow>
     \<exists>grp'. obj = Object3D (isMesh grp') (material grp') True True (setReceiveShadows (children grp'))"
  by (auto simp: loadObj_def setReceiveShadows_single split: option.splits Promise.splits)

lemma loadGlTF_resolved:
  "loadGlTF L file info st = Resolved (obj, st') \<Longrightarrow>
     \<exists>added. obj = Object3D False NoMaterial False False (setReceiveShadows added)"
  by (auto simp: loadGlTF_def Let_def set_children_def new_Group_def split: option.splits)

lemma loadMesh_resolved:
  "loadMesh L mdl st = Resolved (d, st') \<Longrightarrow>
     (fileExtension (filename mdl) = ''obj''
        \<and> (\<exists>obj. loadObj L (filename mdl) (materialInfo mdl) st = Resolved (obj, st') \<and> object d = Some obj))
   \<or> (fileExtension (filename mdl) = ''gltf''
        \<and> (\<exists>obj. loadGlTF L (filename mdl) (materialInfo mdl) st = Resolved (obj, st') \<and> object d = Some obj))
   \<or> (fileExtension (filename mdl) \<notin> {''obj'', ''gltf''} \<and> object d = None)"
  by (auto simp: loadMesh_def Let_def split: Promise.splits if_splits)

lemma example_extensions:
  "fileExtension ''models/chair.FBX'' = ''fbx''"
  "fileExtension ''chair.obj'' = ''obj''"
  "fileExtension ''lamp.gltf'' = ''gltf''"
  by code_simp+

text \<open>
  Claim C4. For every model descriptor whose file name has a lower-case extension other
  than \<open>obj\<close> and \<open>gltf\<close>, the promise of \<open>loadMesh\<close> resolves, with the
  \<open>object\<close> field absent and nothing else changed; it neither rejects nor stays
  unsettled.
\<close>

theorem loadMesh_unsupported_extension:
  "fileExtension (filename mdl) \<notin> {''obj'', ''gltf''}
   \<Longrightarrow> loadMesh L mdl st = Resolved (\<lparr>object = None, model = mdl\<rparr>, st)"
  by (simp add: loadMesh_def Let_def)

theorem loadMesh_unsupported_extension_witness:
  "fileExtension (filename example_fbx_model) \<notin> {''obj'', ''gltf''}
   \<and> loadMesh example_loaders example_fbx_model example_store
       = Resolved (\<lparr>object = None, model = example_fbx_model\<rparr>, example_store)"
proof -
  have ext: "fileExtension (filename example_fbx_model) \<notin> {''obj'', ''gltf''}"
    by (simp add: example_fbx_model_def example_extensions)
  show ?thesis
    using ext loadMesh_unsupported_extension [OF ext, of example_loaders example_store]
    by simp
qed

text \<open>
  Claim C10. The promise of \<open>loadMesh\<close> never rejects. Whenever it resolves, the
  \<open>model\<close> field of the result is the descriptor that was passed in; and it does
  resolve whenever the loading for the format completes: with the loaded subtree for
  \<open>obj\<close> and \<open>gltf\<close>, at once for any other extension.
\<close>

theorem loadMesh_never_rejects:
  "loadMesh L mdl st \<noteq> Rejected
   \<and> (\<forall>d st'. loadMesh L mdl st = Resolved (d, st') \<longrightarrow> model d = mdl)
   \<and> (\<forall>obj st'. fileExtension (filename mdl) = ''obj''
         \<and> loadObj L (filename mdl) (materialInfo mdl) st = Resolved (obj, st')
        \<longrightarrow> loadMesh L mdl st = Resolved (\<lparr>object = Some obj, model = mdl\<rparr>, st'))
   \<and> (\<forall>obj st'. fileExtension (filename mdl) = ''gltf''
         \<and> loadGlTF L (filename mdl) (materialInfo mdl) st = Resolved (obj, st')
        \<longrightarrow> loadMesh L mdl st = Resolved (\<lparr>object = Some obj, model = mdl\<rparr>, st'))
   \<and> (fileExtension (filename mdl) \<notin> {''obj'', ''gltf''}
        \<longrightarrow> loadMesh L mdl st = Resolved (\<lparr>object = None, model = mdl\<rparr>, st))"
  by (auto simp: loadMesh_def Let_def split: Promise.splits)

lemma getProperty_own:
  "own key = Some a \<Longrightarrow> getProperty own key = SingleMaterial a"
  by (simp add: getProperty_def)

lemma getProperty_inherited:
  "own key = None \<Longrightarrow> key \<in> set objectPrototypeKeys \<Longrightarrow>
   getProperty own key = InheritedValue key"
  by (simp add: getProperty_def)

lemma getProperty_undefined:
  "own key = None \<Longrightarrow> key \<notin> set objectPrototypeKeys \<Longrightarrow> getProperty own key = NoMaterial"
  by (simp add: getProperty_def)

lemma example_keys:
  "''wood'' \<notin> set objectPrototypeKeys" "''steel'' \<notin> set objectPrototypeKeys"
  "''undefined'' \<notin> set objectPrototypeKeys" "''constructor'' \<in> set objectPrototypeKeys"
  by (simp_all add: objectPrototypeKeys_def)

lemma example_loadObj_mtl:
  "loadObj example_loaders ''chair.obj'' example_mtl_info example_store
     = Resolved (Object3D False NoMaterial True True
                   [Object3D True (SingleMaterial 2) True True [],
                    Object3D True (SingleMaterial 1) True True []], example_store)"
  by (simp add: loadObj_def loadMaterial_def example_loaders_def example_mtl_info_def
        example_group_def truthy_string_def truthy_flag_def materialName_def example_store_def
        example_material_def set_material_def set_children_def Let_def
        getProperty_own getProperty_undefined example_keys)

theorem loadMesh_never_rejects_witness:
  "loadMesh example_loaders example_obj_mtl_model example_store \<noteq> Rejected
   \<and> fileExtension (filename example_obj_mtl_model) = ''obj''
   \<and> loadMesh example_loaders example_obj_mtl_model example_store
       = Resolved (\<lparr>object = Some (Object3D False NoMaterial True True
                       [Object3D True (SingleMaterial 2) True True [],
                        Object3D True (SingleMaterial 1) True True []]),
                    model = example_obj_mtl_model\<rparr>, example_store)"
proof -
  have ext: "fileExtension (filename example_obj_mtl_model) = ''obj''"
    by (simp add: example_obj_mtl_model_def example_extensions)
  have lo: "loadObj example_loaders (filename example_obj_mtl_model)
              (materialInfo example_obj_mtl_model) example_store
     = Resolved (Object3D False NoMaterial True True
                   [Object3D True (SingleMaterial 2) True True [],
                    Object3D True (SingleMaterial 1) True True []], example_store)"
    by (simp add: example_obj_mtl_model_def example_loadObj_mtl)
  show ?thesis
    using loadMesh_never_rejects [of example_loaders example_obj_mtl_model example_store] ext lo
    by blast
qed

text \<open>
  Claim C7, as stated, fails for \<open>gltf\<close>: the shadow pass runs over the children of
  the container node that \<open>loadGlTF\<close> creates, so the container itself, which is the
  root of the delivered subtree, keeps the flags of a new group.
\<close>

theorem gltf_root_keeps_default_shadow_flags:
  "fileExtension (filename example_gltf_model) = ''gltf''
   \<and> resolvedObject (loadMesh example_loaders example_gltf_model example_store)
       = Some (Object3D False NoMaterial False False
                 [Object3D True (SingleMaterial 0) True True [],
                  Object3D True (SingleMaterial 1) True True []])
   \<and> \<not> list_all shadowsOn
          (traverse (Object3D False NoMaterial False False
                 [Object3D True (SingleMaterial 0) True True [],
                  Object3D True (SingleMaterial 1) True True []]))"
  by (simp add: loadMesh_def example_gltf_model_def example_extensions loadGlTF_def
        example_loaders_def Let_def set_children_def new_Group_def example_group_def
        resolvedObject_def shadowsOn_def)

text \<open>
  Claim C7, amended. After a successful \<open>loadMesh\<close>, for \<open>obj\<close> every node of
  the delivered subtree, the root included, is marked shadow-receiving and
  shadow-casting; for \<open>gltf\<close> every node below the container root is.
\<close>

theorem loadMesh_shadow_flags:
  assumes "loadMesh L mdl st = Resolved (d, st')" and "object d = Some obj"
  shows "(fileExtension (filename mdl) = ''obj'' \<longrightarrow> list_all shadowsOn (traverse obj))
       \<and> (fileExtension (filename mdl) = ''gltf''
            \<longrightarrow> list_all shadowsOn (concat (map traverse (children obj))))"
proof (intro conjI impI)
  assume ext: "fileExtension (filename mdl) = ''obj''"
  with loadMesh_resolved[OF assms(1)] assms(2)
  have "loadObj L (filename mdl) (materialInfo mdl) st = Resolved (obj, st')" by auto
  from loadObj_resolved[OF this] obtain grp' where
    obj: "obj = Object3D (isMesh grp') (material grp') True True (setReceiveShadows (children grp'))"
    by blast
  show "list_all shadowsOn (traverse obj)"
    using setReceiveShadows_flags[of _ "children grp'"]
    by (auto simp: obj list_all_iff shadowsOn_def)
next
  assume ext: "fileExtension (filename mdl) = ''gltf''"
  with loadMesh_resolved[OF assms(1)] assms(2)
  have "loadGlTF L (filename mdl) (materialInfo mdl) st = Resolved (obj, st')" by auto
  from loadGlTF_resolved[OF this] obtain added where
    obj: "obj = Object3D False NoMaterial False False (setReceiveShadows added)"
    by blast
  show "list_all shadowsOn (concat (map traverse (children obj)))"
    using setReceiveShadows_flags[of _ added]
    by (auto simp: obj list_all_iff shadowsOn_def)
qed

lemma example_loadMesh_mtl:
  "loadMesh example_loaders example_obj_mtl_model example_store
       = Resolved (\<lparr>object = Some (Object3D False NoMaterial True True
                       [Object3D True (SingleMaterial 2) True True [],
                        Object3D True (SingleMaterial 1) True True []]),
                    model = example_obj_mtl_model\<rparr>, example_store)"
  by (simp add: loadMesh_def example_loadObj_mtl example_obj_mtl_model_def example_extensions)

lemma example_loadMesh_gltf:
  "\<exists>st'. loadMesh example_loaders example_gltf_model example_store
       = Resolved (\<lparr>object = Some (Object3D False NoMaterial False False
                       [Object3D True (SingleMaterial 0) True True [],
                        Object3D True (SingleMaterial 1) True True []]),
                    model = example_gltf_model\<rparr>, st')"
  by (simp add: loadMesh_def example_gltf_model_def example_extensions loadGlTF_def
        example_loaders_def Let_def set_children_def new_Group_def example_group_def)

theorem loadMesh_shadow_flags_witness:
  "fileExtension (filename example_obj_mtl_model) = ''obj''
   \<and> resolvedObject (loadMesh example_loaders example_obj_mtl_model example_store)
       = Some (Object3D False NoMaterial True True
                 [Object3D True (SingleMaterial 2) True True [],
                  Object3D True (SingleMaterial 1) True True []])
   \<and> list_all shadowsOn (traverse (Object3D False NoMaterial True True
                 [Object3D True (SingleMaterial 2) True True [],
                  Object3D True (SingleMaterial 1) True True []]))
   \<and> fileExtension (filename example_gltf_model) = ''gltf''
   \<and> resolvedObject (loadMesh example_loaders example_gltf_model example_store)
       = Some (Object3D False NoMaterial False False
                 [Object3D True (SingleMaterial 0) True True [],
                  Object3D True (SingleMaterial 1) True True []])
   \<and> list_all shadowsOn (concat (map traverse
                 [Object3D True (SingleMaterial 0) True True [],
                  Object3D True (SingleMaterial 1) True True []]))"
proof -
  have ext: "fileExtension (filename example_obj_mtl_model) = ''obj''"
    "fileExtension (filename example_gltf_model) = ''gltf''"
    by (simp_all add: example_obj_mtl_model_def example_gltf_model_def example_extensions)
  from example_loadMesh_gltf obtain st' where
    gl: "loadMesh example_loaders example_gltf_model example_store
       = Resolved (\<lparr>object = Some (Object3D False NoMaterial False False
                       [Object3D True (SingleMaterial 0) True True [],
                        Object3D True (SingleMaterial 1) True True []]),
                    model = example_gltf_model\<rparr>, st')"
    by blast
  show ?thesis
    using loadMesh_shadow_flags [OF example_loadMesh_mtl] loadMesh_shadow_flags [OF gl]
      ext example_loadMesh_mtl gl
    by (simp add: resolvedObject_def)
qed

lemma loadMaterial_raw_textures:
  assumes "\<not> truthy_string (mtl info)"
  shows "\<exists>obj' st'. loadMaterial L obj info st = Resolved (obj', st')
      \<and> map material (children obj') = replicate (length (children obj)) (SingleMaterial (nextMaterial st))
      \<and> map isMesh (children obj') = map isMesh (children obj)
      \<and> nextMaterial st' = Suc (nextMaterial st)
      \<and> map_texture (materialAt st' (nextMaterial st)) = Some (TextureFromUrl (diffuseTexture info))
      \<and> normalMap (materialAt st' (nextMaterial st))
          = (if truthy_string (normalTexture info)
             then Some (TextureFromUrl (normalTexture info)) else None)"
  using assms
  by (simp add: loadMaterial_def new_MeshPhongMaterial_def new_Color_def Let_def
        set_children_def set_material_def trySetBackfaceRendering_frame setDoubleSide_frame comp_def map_replicate_const)

text \<open>
  Claim C5. For an \<open>obj\<close> descriptor without a material file, once the geometry has
  loaded the promise resolves; exactly one material has been created (at the first free
  address), it carries the diffuse texture and, when one is given, the normal texture;
  and every child of the delivered root refers to that one material.
\<close>

theorem loadMesh_raw_textures_one_shared_material:
  assumes "fileExtension (filename mdl) = ''obj''"
    and "\<not> truthy_string (mtl (materialInfo mdl))"
    and "objLoader L (filename mdl) = Some grp"
  shows "\<exists>obj st'. loadMesh L mdl st = Resolved (\<lparr>object = Some obj, model = mdl\<rparr>, st')
      \<and> map material (children obj) = replicate (length (children grp)) (SingleMaterial (nextMaterial st))
      \<and> map isMesh (children obj) = map isMesh (children grp)
      \<and> nextMaterial st' = Suc (nextMaterial st)
      \<and> map_texture (materialAt st' (nextMaterial st))
          = Some (TextureFromUrl (diffuseTexture (materialInfo mdl)))
      \<and> normalMap (materialAt st' (nextMaterial st))
          = (if truthy_string (normalTexture (materialInfo mdl))
             then Some (TextureFromUrl (normalTexture (materialInfo mdl))) else None)"
proof -
  from loadMaterial_raw_textures[OF assms(2), of L grp st] obtain grp' st' where
    lm: "loadMaterial L grp (materialInfo mdl) st = Resolved (grp', st')"
    and mats: "map material (children grp') = replicate (length (children grp)) (SingleMaterial (nextMaterial st))"
    and meshes: "map isMesh (children grp') = map isMesh (children grp)"
    and rest: "nextMaterial st' = Suc (nextMaterial st)"
      "map_texture (materialAt st' (nextMaterial st)) = Some (TextureFromUrl (diffuseTexture (materialInfo mdl)))"
      "normalMap (materialAt st' (nextMaterial st))
          = (if truthy_string (normalTexture (materialInfo mdl))
             then Some (TextureFromUrl (normalTexture (materialInfo mdl))) else None)"
    by blast
  have "loadMesh L mdl st = Resolved (\<lparr>object = Some (Object3D (isMesh grp') (material grp') True True
            (setReceiveShadows (children grp'))), model = mdl\<rparr>, st')"
    using assms(1) loadObj_of_loadMaterial[OF assms(3) lm] by (simp add: loadMesh_def)
  moreover have "map material (setReceiveShadows (children grp'))
      = replicate (length (children grp)) (SingleMaterial (nextMaterial st))"
    by (simp add: setReceiveShadows_material mats)
  moreover have "map isMesh (setReceiveShadows (children grp')) = map isMesh (children grp)"
    using meshes by (simp add: setReceiveShadows_isMesh)
  ultimately show ?thesis using rest by simp
qed


text \<open>What the material-file branch does to one child.\<close>

lemma assignNamedMaterials_total:
  "\<forall>c \<in> set cs. material c \<noteq> NoMaterial \<Longrightarrow>
   \<exists>cs'. assignNamedMaterials materialCreator st cs = Inr cs'
     \<and> length cs' = length cs
     \<and> (\<forall>i < length cs. \<forall>n. materialName (material (cs ! i)) st = Inr n \<longrightarrow>
           material (cs' ! i) = (case getProperty materialCreator n of
                                   NoMaterial \<Rightarrow> material (cs ! i) | found \<Rightarrow> found))"
proof (induction cs)
  case Nil
  then show ?case by simp
next
  case (Cons c cs)
  then obtain cs' where
    rec: "assignNamedMaterials materialCreator st cs = Inr cs'" "length cs' = length cs"
      "\<forall>i < length cs. \<forall>n. materialName (material (cs ! i)) st = Inr n \<longrightarrow>
           material (cs' ! i) = (case getProperty materialCreator n of
                                   NoMaterial \<Rightarrow> material (cs ! i) | found \<Rightarrow> found)"
    by auto
  from Cons.prems have "material c \<noteq> NoMaterial" by simp
  then obtain k where k: "materialName (material c) st = Inr k"
    by (cases "material c") (auto simp: materialName_def)
  let ?c' = "case getProperty materialCreator k of
               NoMaterial \<Rightarrow> c | found \<Rightarrow> set_material found c"
  have eq: "assignNamedMaterials materialCreator st (c # cs) = Inr (?c' # cs')"
    by (simp add: k rec(1) Let_def)
  have hdc: "material ?c' = (case getProperty materialCreator k of
               NoMaterial \<Rightarrow> material c | found \<Rightarrow> found)"
    by (simp add: set_material_def split: MaterialSlot.splits)
  have "\<forall>i < length (c # cs). \<forall>n. materialName (material ((c # cs) ! i)) st = Inr n \<longrightarrow>
           material ((?c' # cs') ! i) = (case getProperty materialCreator n of
                                   NoMaterial \<Rightarrow> material ((c # cs) ! i) | found \<Rightarrow> found)"
  proof (intro allI impI)
    fix i n
    assume i: "i < length (c # cs)"
      and m: "materialName (material ((c # cs) ! i)) st = Inr n"
    show "material ((?c' # cs') ! i) = (case getProperty materialCreator n of
            NoMaterial \<Rightarrow> material ((c # cs) ! i) | found \<Rightarrow> found)"
    proof (cases i)
      case 0
      with m k have "n = k" by simp
      with 0 hdc show ?thesis by (simp split: MaterialSlot.splits)
    next
      case (Suc j)
      with i m rec(3) show ?thesis by (simp split: MaterialSlot.splits)
    qed
  qed
  with eq rec(2) show ?case by simp
qed

lemma loadMesh_assignNamedMaterials:
  assumes "fileExtension (filename mdl) = ''obj''"
    and "truthy_string (mtl (materialInfo mdl))"
    and "objLoader L (filename mdl) = Some grp"
    and "mtlLoader L (the (mtl (materialInfo mdl))) = Some materialCreator"
    and "assignNamedMaterials materialCreator st (children grp) = Inr cs'"
  shows "\<exists>obj st'. loadMesh L mdl st = Resolved (\<lparr>object = Some obj, model = mdl\<rparr>, st')
      \<and> map material (children obj) = map material cs'"
proof -
  define st' where "st' = (if truthy_flag (renderBackface (materialInfo mdl))
                        then trySetBackfaceRendering [set_children cs' grp] st else st)"
  have lm: "loadMaterial L grp (materialInfo mdl) st = Resolved (set_children cs' grp, st')"
    using assms(2,4,5) by (simp add: loadMaterial_def Let_def st'_def)
  have "loadMesh L mdl st = Resolved (\<lparr>object = Some (Object3D (isMesh (set_children cs' grp))
            (material (set_children cs' grp)) True True
            (setReceiveShadows (children (set_children cs' grp)))), model = mdl\<rparr>, st')"
    using assms(1) loadObj_of_loadMaterial[OF assms(3) lm] by (simp add: loadMesh_def)
  moreover have "children (set_children cs' grp) = cs'" by (simp add: set_children_def)
  ultimately show ?thesis by (simp add: setReceiveShadows_material)
qed

text \<open>
  Claim C8, as stated, fails in two ways. The lookup
  \<open>materialCreator.materials[name]\<close> reads \<open>name\<close> off the \<open>material\<close>
  property itself, so a mesh with a list of materials is looked up under
  \<open>undefined\<close> and keeps its list although one of its materials bears a name the
  file defines (\<open>wood\<close>). And the lookup is a property read on a plain object, so a
  name the file does not define but every object inherits (\<open>constructor\<close>) is
  found: the mesh loses its material to the inherited value.
\<close>

theorem material_file_lookup_departs_from_names:
  "fileExtension (filename example_obj_mtl_model) = ''obj''
   \<and> truthy_string (mtl (materialInfo example_obj_mtl_model))
   \<and> objLoader lookup_loaders (filename example_obj_mtl_model) = Some lookup_group
   \<and> mtlLoader lookup_loaders (the (mtl (materialInfo example_obj_mtl_model)))
       = Some lookup_materials
   \<and> lookup_materials ''wood'' = Some 2
   \<and> lookup_materials ''constructor'' = None
   \<and> childMaterials (Some lookup_group)
       = [SingleMaterial 0, SingleMaterial 1, MaterialArray [0, 1], SingleMaterial 3]
   \<and> name (materialAt lookup_store 0) = ''wood''
   \<and> name (materialAt lookup_store 3) = ''constructor''
   \<and> childMaterials (resolvedObject (loadMesh lookup_loaders example_obj_mtl_model lookup_store))
       = [SingleMaterial 2, SingleMaterial 1, MaterialArray [0, 1],
          InheritedValue ''constructor'']"
proof -
  have h: "fileExtension (filename example_obj_mtl_model) = ''obj''"
    "truthy_string (mtl (materialInfo example_obj_mtl_model))"
    "objLoader lookup_loaders (filename example_obj_mtl_model) = Some lookup_group"
    "mtlLoader lookup_loaders (the (mtl (materialInfo example_obj_mtl_model)))
       = Some lookup_materials"
    by (simp_all add: example_obj_mtl_model_def example_extensions example_mtl_info_def
          truthy_string_def lookup_loaders_def)
  have m: "lookup_materials ''wood'' = Some 2" "lookup_materials ''steel'' = None"
    "lookup_materials ''undefined'' = None" "lookup_materials ''constructor'' = None"
    by (simp_all add: lookup_materials_def)
  have n: "name (materialAt lookup_store 0) = ''wood''"
    "name (materialAt lookup_store (Suc 0)) = ''steel''"
    "name (materialAt lookup_store 3) = ''constructor''"
    by (simp_all add: lookup_store_def example_store_def example_material_def)
  have a: "assignNamedMaterials lookup_materials lookup_store (children lookup_group)
      = Inr [Object3D True (SingleMaterial 2) False False [],
             Object3D True (SingleMaterial 1) False False [],
             Object3D True (MaterialArray [0, 1]) False False [],
             Object3D True (InheritedValue ''constructor'') False False []]"
    by (simp add: lookup_group_def materialName_def n m Let_def set_material_def
          getProperty_own getProperty_undefined getProperty_inherited example_keys)
  from loadMesh_assignNamedMaterials[OF h a] obtain obj st' where
    "loadMesh lookup_loaders example_obj_mtl_model lookup_store
       = Resolved (\<lparr>object = Some obj, model = example_obj_mtl_model\<rparr>, st')"
    "map material (children obj) = [SingleMaterial 2, SingleMaterial 1, MaterialArray [0, 1],
          InheritedValue ''constructor'']"
    by auto
  then have "childMaterials (resolvedObject
        (loadMesh lookup_loaders example_obj_mtl_model lookup_store))
       = [SingleMaterial 2, SingleMaterial 1, MaterialArray [0, 1],
          InheritedValue ''constructor'']"
    by (simp add: childMaterials_def resolvedObject_def)
  moreover have "childMaterials (Some lookup_group)
       = [SingleMaterial 0, SingleMaterial 1, MaterialArray [0, 1], SingleMaterial 3]"
    by (simp add: childMaterials_def lookup_group_def)
  ultimately show ?thesis using h m(1,4) n(1,3) by simp
qed

text \<open>
  Claim C8, amended. For an \<open>obj\<close> descriptor with a material file, once geometry
  and material file have loaded (the children of the loaded group all carrying one
  material or a list of materials, as the geometry loader makes them) the promise
  resolves, so no mismatch raises an error. A child with one material whose name is
  defined in the file refers to the material of that name. A child with one material
  whose name is not defined in the file keeps the material it had, unless the name is
  one of the keys every plain object answers; then the child holds the inherited value
  instead. A child with a list of materials is looked up under \<open>undefined\<close>, not
  under the names of its materials: it keeps its list unless the file defines a
  material of that name.
\<close>

theorem loadMesh_material_file_by_name:
  assumes "fileExtension (filename mdl) = ''obj''"
    and "truthy_string (mtl (materialInfo mdl))"
    and "objLoader L (filename mdl) = Some grp"
    and "mtlLoader L (the (mtl (materialInfo mdl))) = Some materialCreator"
    and "list_all carriesMaterial (children grp)"
  shows "\<exists>obj st'. loadMesh L mdl st = Resolved (\<lparr>object = Some obj, model = mdl\<rparr>, st')
      \<and> length (children obj) = length (children grp)
      \<and> (\<forall>i < length (children grp). \<forall>a. material (children grp ! i) = SingleMaterial a \<longrightarrow>
            material (children obj ! i)
              = (case materialCreator (name (materialAt st a)) of
                   Some m \<Rightarrow> SingleMaterial m
                 | None \<Rightarrow>
                     if name (materialAt st a) \<in> set objectPrototypeKeys
                     then InheritedValue (name (materialAt st a)) else SingleMaterial a))
      \<and> (\<forall>i < length (children grp). \<forall>ms. material (children grp ! i) = MaterialArray ms \<longrightarrow>
            material (children obj ! i)
              = (case materialCreator ''undefined'' of
                   Some m \<Rightarrow> SingleMaterial m | None \<Rightarrow> MaterialArray ms))"
proof -
  from assms(5) have "\<forall>c \<in> set (children grp). material c \<noteq> NoMaterial"
    by (auto simp: list_all_iff carriesMaterial_def)
  from assignNamedMaterials_total[OF this, of materialCreator st] obtain cs' where
    cs': "assignNamedMaterials materialCreator st (children grp) = Inr cs'"
      "length cs' = length (children grp)"
      "\<forall>i < length (children grp). \<forall>n.
          materialName (material (children grp ! i)) st = Inr n \<longrightarrow>
           material (cs' ! i) = (case getProperty materialCreator n of
                                   NoMaterial \<Rightarrow> material (children grp ! i) | found \<Rightarrow> found)"
    by blast
  from loadMesh_assignNamedMaterials[OF assms(1-4) cs'(1)] obtain obj st' where
    r: "loadMesh L mdl st = Resolved (\<lparr>object = Some obj, model = mdl\<rparr>, st')"
      "map material (children obj) = map material cs'"
    by blast
  from r(2) have len: "length (children obj) = length (children grp)"
    using cs'(2) by (metis length_map)
  have nth: "material (children obj ! i) = material (cs' ! i)" if "i < length (children grp)" for i
    using that r(2) len cs'(2) by (metis nth_map)
  have single: "material (children obj ! i)
              = (case materialCreator (name (materialAt st a)) of
                   Some m \<Rightarrow> SingleMaterial m
                 | None \<Rightarrow>
                     if name (materialAt st a) \<in> set objectPrototypeKeys
                     then InheritedValue (name (materialAt st a)) else SingleMaterial a)"
    if "i < length (children grp)" "material (children grp ! i) = SingleMaterial a" for i a
  proof -
    have "materialName (material (children grp ! i)) st = Inr (name (materialAt st a))"
      using that(2) by (simp add: materialName_def)
    with cs'(3) that(1) have "material (cs' ! i)
        = (case getProperty materialCreator (name (materialAt st a)) of
             NoMaterial \<Rightarrow> material (children grp ! i) | found \<Rightarrow> found)"
      by blast
    then show ?thesis
      using nth[OF that(1)] that(2) by (simp add: getProperty_def split: option.splits)
  qed
  have several: "material (children obj ! i)
              = (case materialCreator ''undefined'' of
                   Some m \<Rightarrow> SingleMaterial m | None \<Rightarrow> MaterialArray ms)"
    if "i < length (children grp)" "material (children grp ! i) = MaterialArray ms" for i ms
  proof -
    have "materialName (material (children grp ! i)) st = Inr ''undefined''"
      using that(2) by (simp add: materialName_def)
    with cs'(3) that(1) have "material (cs' ! i)
        = (case getProperty materialCreator ''undefined'' of
             NoMaterial \<Rightarrow> material (children grp ! i) | found \<Rightarrow> found)"
      by blast
    then show ?thesis
      using nth[OF that(1)] that(2)
      by (simp add: getProperty_def example_keys split: option.splits)
  qed
  from r(1) len single several show ?thesis by blast
qed


theorem loadMesh_raw_textures_one_shared_material_witness:
  "fileExtension (filename example_obj_texture_model) = ''obj''
   \<and> \<not> truthy_string (mtl (materialInfo example_obj_texture_model))
   \<and> objLoader example_loaders (filename example_obj_texture_model) = Some example_group
   \<and> (\<exists>obj st'. loadMesh example_loaders example_obj_texture_model example_store
          = Resolved (\<lparr>object = Some obj, model = example_obj_texture_model\<rparr>, st')
        \<and> map material (children obj) = [SingleMaterial 3, SingleMaterial 3]
        \<and> nextMaterial st' = 4
        \<and> map_texture (materialAt st' 3) = Some (TextureFromUrl (Some ''wood.png''))
        \<and> normalMap (materialAt st' 3) = None)"
proof -
  have h: "fileExtension (filename example_obj_texture_model) = ''obj''"
    "\<not> truthy_string (mtl (materialInfo example_obj_texture_model))"
    "objLoader example_loaders (filename example_obj_texture_model) = Some example_group"
    by (simp_all add: example_obj_texture_model_def example_extensions example_texture_info_def
          truthy_string_def example_loaders_def)
  have n: "nextMaterial example_store = 3" "length (children example_group) = 2"
    "diffuseTexture (materialInfo example_obj_texture_model) = Some ''wood.png''"
    "\<not> truthy_string (normalTexture (materialInfo example_obj_texture_model))"
    by (simp_all add: example_store_def example_group_def example_obj_texture_model_def
          example_texture_info_def truthy_string_def)
  from loadMesh_raw_textures_one_shared_material [OF h, of example_store] n
  obtain obj st' where
    "loadMesh example_loaders example_obj_texture_model example_store
          = Resolved (\<lparr>object = Some obj, model = example_obj_texture_model\<rparr>, st')"
    "map material (children obj) = [SingleMaterial 3, SingleMaterial 3]"
    "nextMaterial st' = 4"
    "map_texture (materialAt st' 3) = Some (TextureFromUrl (Some ''wood.png''))"
    "normalMap (materialAt st' 3) = None"
    by (auto simp: numeral_2_eq_2)
  with h show ?thesis by auto
qed

theorem loadMesh_material_file_by_name_witness:
  "fileExtension (filename example_obj_mtl_model) = ''obj''
   \<and> truthy_string (mtl (materialInfo example_obj_mtl_model))
   \<and> objLoader lookup_loaders (filename example_obj_mtl_model) = Some lookup_group
   \<and> mtlLoader lookup_loaders (the (mtl (materialInfo example_obj_mtl_model)))
       = Some lookup_materials
   \<and> list_all carriesMaterial (children lookup_group)
   \<and> (\<exists>obj st'. loadMesh lookup_loaders example_obj_mtl_model lookup_store
          = Resolved (\<lparr>object = Some obj, model = example_obj_mtl_model\<rparr>, st')
        \<and> length (children obj) = 4
        \<and> material (children obj ! 0) = SingleMaterial 2
        \<and> material (children obj ! 1) = SingleMaterial 1
        \<and> material (children obj ! 2) = MaterialArray [0, 1]
        \<and> material (children obj ! 3) = InheritedValue ''constructor'')"
proof -
  have h: "fileExtension (filename example_obj_mtl_model) = ''obj''"
    "truthy_string (mtl (materialInfo example_obj_mtl_model))"
    "objLoader lookup_loaders (filename example_obj_mtl_model) = Some lookup_group"
    "mtlLoader lookup_loaders (the (mtl (materialInfo example_obj_mtl_model)))
       = Some lookup_materials"
    "list_all carriesMaterial (children lookup_group)"
    by (simp_all add: example_obj_mtl_model_def example_extensions example_mtl_info_def
          truthy_string_def lookup_loaders_def lookup_group_def carriesMaterial_def)
  have g: "length (children lookup_group) = 4"
    "material (children lookup_group ! 0) = SingleMaterial 0"
    "material (children lookup_group ! 1) = SingleMaterial 1"
    "material (children lookup_group ! 2) = MaterialArray [0, 1]"
    "material (children lookup_group ! 3) = SingleMaterial 3"
    by (simp_all add: lookup_group_def)
  have n: "name (materialAt lookup_store 0) = ''wood''"
    "name (materialAt lookup_store 1) = ''steel''"
    "name (materialAt lookup_store 3) = ''constructor''"
    "lookup_materials ''wood'' = Some 2" "lookup_materials ''steel'' = None"
    "lookup_materials ''undefined'' = None" "lookup_materials ''constructor'' = None"
    by (simp_all add: lookup_store_def example_store_def example_material_def
          lookup_materials_def)
  from loadMesh_material_file_by_name [OF h, of lookup_store] obtain obj st' where
    r: "loadMesh lookup_loaders example_obj_mtl_model lookup_store
          = Resolved (\<lparr>object = Some obj, model = example_obj_mtl_model\<rparr>, st')"
      "length (children obj) = length (children lookup_group)"
      "\<forall>i < length (children lookup_group). \<forall>a.
          material (children lookup_group ! i) = SingleMaterial a \<longrightarrow>
            material (children obj ! i)
              = (case lookup_materials (name (materialAt lookup_store a)) of
                   Some m \<Rightarrow> SingleMaterial m
                 | None \<Rightarrow>
                     if name (materialAt lookup_store a) \<in> set objectPrototypeKeys
                     then InheritedValue (name (materialAt lookup_store a))
                     else SingleMaterial a)"
      "\<forall>i < length (children lookup_group). \<forall>ms.
          material (children lookup_group ! i) = MaterialArray ms \<longrightarrow>
            material (children obj ! i)
              = (case lookup_materials ''undefined'' of
                   Some m \<Rightarrow> SingleMaterial m | None \<Rightarrow> MaterialArray ms)"
    by blast
  from r(3) g n have "material (children obj ! 0) = SingleMaterial 2"
    "material (children obj ! 1) = SingleMaterial 1"
    "material (children obj ! 3) = InheritedValue ''constructor''"
    by (auto simp: example_keys)
  moreover from r(4) g n have "material (children obj ! 2) = MaterialArray [0, 1]"
    by auto
  ultimately have "\<exists>obj st'. loadMesh lookup_loaders example_obj_mtl_model lookup_store
          = Resolved (\<lparr>object = Some obj, model = example_obj_mtl_model\<rparr>, st')
        \<and> length (children obj) = 4
        \<and> material (children obj ! 0) = SingleMaterial 2
        \<and> material (children obj ! 1) = SingleMaterial 1
        \<and> material (children obj ! 2) = MaterialArray [0, 1]
        \<and> material (children obj ! 3) = InheritedValue ''constructor''"
    using r(1,2) g(1) by auto
  with h show ?thesis by simp
qed

section \<open>Properties of the material colour changer\<close>

lemma tryAddAnimatableItems_Cons:
  "tryAddAnimatableItems (m # ms) items target st =
     (if \<not> isColorMaterial (materialAt st m) then tryAddAnimatableItems ms items target st
      else tryAddAnimatableItems ms
             (items @ [\<lparr>startColor = Suc (nextColor st), deltaColor = nextColor st,
                        itemMaterial = m\<rparr>])
             target (withItemColors target (the (color (materialAt st m))) st))"
  by (simp add: tryAddAnimatableItems.simps(2) new_Color_def Let_def withItemColors_def
        colorDifference_def)

lemma withItemColors_simps:
  "materialAt (withItemColors target c st) = materialAt st"
  "nextMaterial (withItemColors target c st) = nextMaterial st"
  "nextColor (withItemColors target c st) = Suc (Suc (nextColor st))"
  by (simp_all add: withItemColors_def)

lemma withItemColors_colorAt:
  "a < nextColor st \<Longrightarrow> colorAt (withItemColors target c st) a = colorAt st a"
  "colorAt (withItemColors target c st) (nextColor st)
     = colorDifference (colorAt st target) (colorAt st c)"
  "c < nextColor st \<Longrightarrow> colorAt (withItemColors target c st) (Suc (nextColor st)) = colorAt st c"
  by (simp_all add: withItemColors_def)

lemma tryAddAnimatableItems_materials:
  "tryAddAnimatableItems ms items target st = (items', st') \<Longrightarrow>
     materialAt st' = materialAt st
   \<and> map itemMaterial items'
       = map itemMaterial items @ filter (\<lambda>m. isColorMaterial (materialAt st m)) ms"
proof (induction ms arbitrary: items st)
  case Nil
  then show ?case by simp
next
  case (Cons m ms)
  show ?case
  proof (cases "isColorMaterial (materialAt st m)")
    case False
    with Cons.prems have "tryAddAnimatableItems ms items target st = (items', st')"
      by (simp add: tryAddAnimatableItems_Cons)
    from Cons.IH[OF this] False show ?thesis by simp
  next
    case True
    with Cons.prems have "tryAddAnimatableItems ms
             (items @ [\<lparr>startColor = Suc (nextColor st), deltaColor = nextColor st,
                        itemMaterial = m\<rparr>])
             target (withItemColors target (the (color (materialAt st m))) st) = (items', st')"
      by (simp add: tryAddAnimatableItems_Cons)
    from Cons.IH[OF this] True show ?thesis by (simp add: withItemColors_simps)
  qed
qed

lemma extendsStore_refl: "extendsStore st st"
  by (simp add: extendsStore_def)

lemma extendsStore_withItemColors:
  "extendsStore st0 st \<Longrightarrow> extendsStore st0 (withItemColors target c st)"
  by (simp add: extendsStore_def withItemColors_simps withItemColors_colorAt)

lemma itemSnapshot_withItemColors:
  assumes "itemSnapshot st0 target st it"
  shows "itemSnapshot st0 target (withItemColors t c st) it"
proof -
  from assms obtain c' where
    "color (materialAt st0 (itemMaterial it)) = Some c'"
    "nextColor st0 \<le> startColor it" "startColor it < nextColor st"
    "nextColor st0 \<le> deltaColor it" "deltaColor it < nextColor st"
    "colorAt st (startColor it) = colorAt st0 c'"
    "colorAt st (deltaColor it) = colorDifference (colorAt st0 target) (colorAt st0 c')"
    unfolding itemSnapshot_def by blast
  then show ?thesis
    unfolding itemSnapshot_def
    by (intro exI[of _ c']) (simp add: withItemColors_simps withItemColors_colorAt)
qed

lemma itemSnapshot_new:
  assumes "extendsStore st0 st" and "color (materialAt st m) = Some c"
    and "c < nextColor st0" and "target < nextColor st0"
  shows "itemSnapshot st0 target (withItemColors target c st)
           \<lparr>startColor = Suc (nextColor st), deltaColor = nextColor st, itemMaterial = m\<rparr>"
proof -
  from assms have lt: "c < nextColor st" "target < nextColor st"
    and eq: "colorAt st c = colorAt st0 c" "colorAt st target = colorAt st0 target"
    and mat: "color (materialAt st0 m) = Some c"
    by (auto simp: extendsStore_def)
  from assms(1) have le: "nextColor st0 \<le> nextColor st" by (simp add: extendsStore_def)
  show ?thesis
    unfolding itemSnapshot_def
    using mat le lt eq
    by (intro exI[of _ c]) (simp add: withItemColors_simps withItemColors_colorAt)
qed

lemma tryAddAnimatableItems_snapshots:
  assumes "colorsAllocated st0" and "target < nextColor st0"
  shows "extendsStore st0 st \<Longrightarrow> \<forall>it \<in> set items. itemSnapshot st0 target st it \<Longrightarrow>
     tryAddAnimatableItems ms items target st = (items', st') \<Longrightarrow>
     extendsStore st0 st' \<and> (\<forall>it \<in> set items'. itemSnapshot st0 target st' it)"
proof (induction ms arbitrary: items st)
  case Nil
  then show ?case by simp
next
  case (Cons m ms)
  show ?case
  proof (cases "isColorMaterial (materialAt st m)")
    case False
    with Cons.prems(3) have "tryAddAnimatableItems ms items target st = (items', st')"
      by (simp add: tryAddAnimatableItems_Cons)
    from Cons.IH[OF Cons.prems(1,2) this] show ?thesis .
  next
    case True
    then obtain c where c: "color (materialAt st m) = Some c"
      by (auto simp: isColorMaterial_def)
    with Cons.prems(1) assms(1) have clt: "c < nextColor st0"
      by (auto simp: extendsStore_def colorsAllocated_def)
    let ?it = "\<lparr>startColor = Suc (nextColor st), deltaColor = nextColor st, itemMaterial = m\<rparr>"
    let ?st = "withItemColors target c st"
    from Cons.prems(3) True c
    have run: "tryAddAnimatableItems ms (items @ [?it]) target ?st = (items', st')"
      by (simp add: tryAddAnimatableItems_Cons)
    have e: "extendsStore st0 ?st"
      using Cons.prems(1) by (rule extendsStore_withItemColors)
    have s: "\<forall>it \<in> set (items @ [?it]). itemSnapshot st0 target ?st it"
      using Cons.prems(2) itemSnapshot_withItemColors
        itemSnapshot_new[OF Cons.prems(1) c clt assms(2)]
      by auto
    from Cons.IH[OF e s run] show ?thesis .
  qed
qed

lemma meshMaterials_surface:
  "isMesh n \<Longrightarrow> material n \<noteq> NoMaterial \<Longrightarrow> meshMaterials (material n) = Inr (surfaceMaterials n)"
  by (cases "material n") (simp_all add: meshMaterials_def surfaceMaterials_def)

lemma visitNodes_materials:
  "list_all (\<lambda>mesh. isMesh mesh \<longrightarrow> material mesh \<noteq> NoMaterial) nodes \<Longrightarrow>
   \<exists>items' st'. visitNodes nodes items target st = Inr (items', st')
     \<and> materialAt st' = materialAt st
     \<and> map itemMaterial items'
         = map itemMaterial items
           @ filter (\<lambda>m. isColorMaterial (materialAt st m)) (concat (map surfaceMaterials nodes))"
proof (induction nodes arbitrary: items st)
  case Nil
  then show ?case by simp
next
  case (Cons n nodes)
  then have rest: "list_all (\<lambda>mesh. isMesh mesh \<longrightarrow> material mesh \<noteq> NoMaterial) nodes" by simp
  show ?case
  proof (cases "isMesh n")
    case False
    with Cons.IH[OF rest, of items st] show ?thesis by (simp add: surfaceMaterials_def)
  next
    case True
    with Cons.prems have mm: "meshMaterials (material n) = Inr (surfaceMaterials n)"
      by (simp add: meshMaterials_surface)
    obtain items1 st1 where
      t: "tryAddAnimatableItems (surfaceMaterials n) items target st = (items1, st1)"
      by (cases "tryAddAnimatableItems (surfaceMaterials n) items target st") auto
    from tryAddAnimatableItems_materials[OF t]
    have m1: "materialAt st1 = materialAt st"
      and i1: "map itemMaterial items1 = map itemMaterial items
          @ filter (\<lambda>m. isColorMaterial (materialAt st m)) (surfaceMaterials n)"
      by simp_all
    from Cons.IH[OF rest, of items1 st1] obtain items' st' where
      v: "visitNodes nodes items1 target st1 = Inr (items', st')"
      and m2: "materialAt st' = materialAt st1"
      and i2: "map itemMaterial items' = map itemMaterial items1
          @ filter (\<lambda>m. isColorMaterial (materialAt st1 m)) (concat (map surfaceMaterials nodes))"
      by blast
    have "visitNodes (n # nodes) items target st = Inr (items', st')"
      using True mm t v by simp
    then show ?thesis using m1 m2 i1 i2 by simp
  qed
qed

lemma visitNodes_snapshots:
  assumes "colorsAllocated st0" and "target < nextColor st0"
  shows "extendsStore st0 st \<Longrightarrow> \<forall>it \<in> set items. itemSnapshot st0 target st it \<Longrightarrow>
     visitNodes nodes items target st = Inr (items', st') \<Longrightarrow>
     extendsStore st0 st' \<and> (\<forall>it \<in> set items'. itemSnapshot st0 target st' it)"
proof (induction nodes arbitrary: items st)
  case Nil
  then show ?case by simp
next
  case (Cons n nodes)
  show ?case
  proof (cases "isMesh n")
    case False
    with Cons.prems(3) have "visitNodes nodes items target st = Inr (items', st')" by simp
    from Cons.IH[OF Cons.prems(1,2) this] show ?thesis .
  next
    case True
    with Cons.prems(3) obtain ms where mm: "meshMaterials (material n) = Inr ms"
      by (cases "meshMaterials (material n)") auto
    obtain items1 st1 where t: "tryAddAnimatableItems ms items target st = (items1, st1)"
      by (cases "tryAddAnimatableItems ms items target st") auto
    from Cons.prems(3) True mm t
    have v: "visitNodes nodes items1 target st1 = Inr (items', st')" by simp
    from tryAddAnimatableItems_snapshots[OF assms Cons.prems(1,2) t]
    have "extendsStore st0 st1" "\<forall>it \<in> set items1. itemSnapshot st0 target st1 it" by simp_all
    from Cons.IH[OF this v] show ?thesis .
  qed
qed

lemma traverse_self: "n \<in> set (traverse n)"
  by (cases n) simp

lemma traverse_children:
  "n \<in> set (traverse rootObj) \<Longrightarrow> c \<in> set (children n) \<Longrightarrow> c \<in> set (traverse rootObj)"
proof (induction rootObj rule: traverse.induct)
  case (1 im m rs cs ch)
  from "1.prems"(1) consider "n = Object3D im m rs cs ch" | k where "k \<in> set ch" "n \<in> set (traverse k)"
    by auto
  then show ?case
  proof cases
    case 1
    with "1.prems"(2) have "c \<in> set ch" by simp
    with traverse_self[of c] show ?thesis by auto
  next
    case 2
    with "1.IH"[OF 2(1) 2(2) "1.prems"(2)] show ?thesis by auto
  qed
qed

lemma getAnimatableItems_materials:
  assumes "meshesHaveMaterial (rootObject event)"
  shows "\<exists>items st'. getAnimatableItems event st = Inr (items, st')
     \<and> map itemMaterial items
         = filter (\<lambda>m. isColorMaterial (materialAt st m))
             ((case materials event of None \<Rightarrow> [] | Some ms \<Rightarrow> ms)
              @ (case rootObject event of
                   None \<Rightarrow> []
                 | Some rootObj \<Rightarrow> concat (map surfaceMaterials (traverse rootObj))))"
proof -
  obtain items1 st1 where
    t: "(case materials event of
              Some ms \<Rightarrow> tryAddAnimatableItems ms [] (targetColor event) st
            | None \<Rightarrow> ([], st)) = (items1, st1)"
    by (cases "case materials event of
              Some ms \<Rightarrow> tryAddAnimatableItems ms [] (targetColor event) st
            | None \<Rightarrow> ([], st)") auto
  have m1: "materialAt st1 = materialAt st \<and> map itemMaterial items1
      = filter (\<lambda>m. isColorMaterial (materialAt st m)) (case materials event of None \<Rightarrow> [] | Some ms \<Rightarrow> ms)"
  proof (cases "materials event")
    case None
    with t show ?thesis by simp
  next
    case (Some ms)
    with t have "tryAddAnimatableItems ms [] (targetColor event) st = (items1, st1)" by simp
    from tryAddAnimatableItems_materials[OF this] Some show ?thesis by simp
  qed
  show ?thesis
  proof (cases "rootObject event")
    case None
    with t m1 show ?thesis by (simp add: getAnimatableItems_def)
  next
    case (Some rootObj)
    with assms have "list_all (\<lambda>mesh. isMesh mesh \<longrightarrow> material mesh \<noteq> NoMaterial) (traverse rootObj)"
      by (simp add: meshesHaveMaterial_def)
    from visitNodes_materials[OF this, of items1 "targetColor event" st1] obtain items' st' where
      "visitNodes (traverse rootObj) items1 (targetColor event) st1 = Inr (items', st')"
      "map itemMaterial items' = map itemMaterial items1
         @ filter (\<lambda>m. isColorMaterial (materialAt st1 m)) (concat (map surfaceMaterials (traverse rootObj)))"
      by blast
    with t m1 Some show ?thesis by (simp add: getAnimatableItems_def)
  qed
qed

text \<open>
  Claim C6. When every mesh of the subtree carries a material, \<open>getAnimatableItems\<close>
  returns, without error, one item for each material that passes the capability test,
  taken in order from the explicit list and then from the surface nodes among the root
  and all its descendants; a node that is not a mesh and a material that fails the test
  contribute nothing. The traversal reaches the root and every child of a node it
  reaches.
\<close>

theorem getAnimatableItems_qualifying_materials:
  assumes "meshesHaveMaterial (rootObject event)"
  shows "\<exists>items st'. getAnimatableItems event st = Inr (items, st')
     \<and> map itemMaterial items
         = filter (\<lambda>m. isColorMaterial (materialAt st m))
             ((case materials event of None \<Rightarrow> [] | Some ms \<Rightarrow> ms)
              @ (case rootObject event of
                   None \<Rightarrow> []
                 | Some rootObj \<Rightarrow> concat (map surfaceMaterials (traverse rootObj))))
   \<and> (\<forall>rootObj n c. rootObject event = Some rootObj \<longrightarrow>
          rootObj \<in> set (traverse rootObj)
          \<and> (n \<in> set (traverse rootObj) \<and> c \<in> set (children n) \<longrightarrow> c \<in> set (traverse rootObj)))"
proof -
  have visited: "\<forall>rootObj n c. rootObject event = Some rootObj \<longrightarrow>
          rootObj \<in> set (traverse rootObj)
          \<and> (n \<in> set (traverse rootObj) \<and> c \<in> set (children n) \<longrightarrow> c \<in> set (traverse rootObj))"
    using traverse_self traverse_children by blast
  from getAnimatableItems_materials[OF assms, of st] visited show ?thesis by blast
qed

theorem getAnimatableItems_qualifying_materials_witness:
  "meshesHaveMaterial (rootObject example_event)
   \<and> (\<exists>items st'. getAnimatableItems example_event example_store = Inr (items, st')
        \<and> map itemMaterial items = [0, 0, 1])"
proof -
  have h: "meshesHaveMaterial (rootObject example_event)"
    by (simp add: meshesHaveMaterial_def example_event_def example_scene_def)
  have f: "filter (\<lambda>m. isColorMaterial (materialAt example_store m))
             ((case materials example_event of None \<Rightarrow> [] | Some ms \<Rightarrow> ms)
              @ (case rootObject example_event of
                   None \<Rightarrow> []
                 | Some rootObj \<Rightarrow> concat (map surfaceMaterials (traverse rootObj))))
           = [0, 0, 1]"
    by (simp add: example_event_def example_scene_def surfaceMaterials_def isColorMaterial_def
          example_store_def example_material_def)
  from getAnimatableItems_qualifying_materials [OF h, of example_store] f h
  show ?thesis by auto
qed

lemma doProgress_Cons:
  "doProgress (item # items) p st =
     (case color (materialAt st (itemMaterial item)) of
        None \<Rightarrow> Inl TypeError
      | Some c \<Rightarrow>
          doProgress items p
            (st\<lparr>colorAt := (colorAt st)(c :=
                  startPlusProgressDelta (colorAt st (startColor item))
                    (colorAt st (deltaColor item)) p)\<rparr>))"
  by (simp add: doProgress.simps(2) Let_def setRGB_def startPlusProgressDelta_def
        split: option.splits)

text \<open>
  A tick over items whose private colour objects (the addresses in \<open>P\<close>) are not the
  colour object of any of their materials: every material's colour object ends with the
  value \<open>V\<close> its items agree on, and nothing else changes.
\<close>

lemma doProgress_applies:
  "\<forall>it \<in> set items. startColor it \<in> P \<and> deltaColor it \<in> P
      \<and> (\<exists>c. color (materialAt st (itemMaterial it)) = Some c \<and> c \<notin> P
            \<and> startPlusProgressDelta (colorAt st (startColor it)) (colorAt st (deltaColor it)) p = V c)
   \<Longrightarrow> \<exists>st'. doProgress items p st = Inr st'
         \<and> materialAt st' = materialAt st \<and> nextMaterial st' = nextMaterial st
         \<and> nextColor st' = nextColor st
         \<and> (\<forall>it \<in> set items. \<forall>c. color (materialAt st (itemMaterial it)) = Some c
               \<longrightarrow> colorAt st' c = V c)
         \<and> (\<forall>a. (\<forall>it \<in> set items. color (materialAt st (itemMaterial it)) \<noteq> Some a)
               \<longrightarrow> colorAt st' a = colorAt st a)"
proof (induction items arbitrary: st)
  case Nil
  then show ?case by simp
next
  case (Cons item items)
  from Cons.prems obtain c where
    c: "color (materialAt st (itemMaterial item)) = Some c" "c \<notin> P"
      "startPlusProgressDelta (colorAt st (startColor item)) (colorAt st (deltaColor item)) p = V c"
    by auto
  let ?st = "st\<lparr>colorAt := (colorAt st)(c := V c)\<rparr>"
  have step: "doProgress (item # items) p st = doProgress items p ?st"
    using c by (simp add: doProgress_Cons)
  have pre: "\<forall>it \<in> set items. startColor it \<in> P \<and> deltaColor it \<in> P
      \<and> (\<exists>c'. color (materialAt ?st (itemMaterial it)) = Some c' \<and> c' \<notin> P
            \<and> startPlusProgressDelta (colorAt ?st (startColor it)) (colorAt ?st (deltaColor it)) p = V c')"
  proof
    fix it assume it: "it \<in> set items"
    with Cons.prems obtain c' where
      c': "startColor it \<in> P" "deltaColor it \<in> P"
        "color (materialAt st (itemMaterial it)) = Some c'" "c' \<notin> P"
        "startPlusProgressDelta (colorAt st (startColor it)) (colorAt st (deltaColor it)) p = V c'"
      by auto
    from c'(1,2) c(2) have "startColor it \<noteq> c" "deltaColor it \<noteq> c" by auto
    with c' show "startColor it \<in> P \<and> deltaColor it \<in> P
      \<and> (\<exists>c'. color (materialAt ?st (itemMaterial it)) = Some c' \<and> c' \<notin> P
            \<and> startPlusProgressDelta (colorAt ?st (startColor it)) (colorAt ?st (deltaColor it)) p = V c')"
      by simp
  qed
  from Cons.IH[OF pre] obtain st' where
    r: "doProgress items p ?st = Inr st'"
      "materialAt st' = materialAt st" "nextMaterial st' = nextMaterial st"
      "nextColor st' = nextColor st"
      "\<forall>it \<in> set items. \<forall>c. color (materialAt st (itemMaterial it)) = Some c
               \<longrightarrow> colorAt st' c = V c"
      "\<forall>a. (\<forall>it \<in> set items. color (materialAt st (itemMaterial it)) \<noteq> Some a)
               \<longrightarrow> colorAt st' a = colorAt ?st a"
    by auto
  have head: "colorAt st' c = V c"
  proof (cases "\<exists>it \<in> set items. color (materialAt st (itemMaterial it)) = Some c")
    case True
    with r(5) show ?thesis by blast
  next
    case False
    with r(6) have "colorAt st' c = colorAt ?st c" by blast
    then show ?thesis by simp
  qed
  have written: "\<forall>it \<in> set (item # items). \<forall>c. color (materialAt st (itemMaterial it)) = Some c
               \<longrightarrow> colorAt st' c = V c"
    using head c(1) r(5) by auto
  have frame: "\<forall>a. (\<forall>it \<in> set (item # items). color (materialAt st (itemMaterial it)) \<noteq> Some a)
               \<longrightarrow> colorAt st' a = colorAt st a"
  proof (intro allI impI)
    fix a assume a: "\<forall>it \<in> set (item # items). color (materialAt st (itemMaterial it)) \<noteq> Some a"
    with c(1) have "a \<noteq> c" by auto
    moreover from a r(6) have "colorAt st' a = colorAt ?st a" by simp
    ultimately show "colorAt st' a = colorAt st a" by simp
  qed
  from step r(1-4) written frame show ?case by simp
qed

lemma getAnimatableItems_snapshots:
  assumes "colorsAllocated st0" and "targetColor event < nextColor st0"
    and "getAnimatableItems event st0 = Inr (items, st1)"
  shows "extendsStore st0 st1 \<and> (\<forall>it \<in> set items. itemSnapshot st0 (targetColor event) st1 it)"
proof -
  obtain items1 st' where
    t: "(case materials event of
              Some ms \<Rightarrow> tryAddAnimatableItems ms [] (targetColor event) st0
            | None \<Rightarrow> ([], st0)) = (items1, st')"
    by (cases "case materials event of
              Some ms \<Rightarrow> tryAddAnimatableItems ms [] (targetColor event) st0
            | None \<Rightarrow> ([], st0)") auto
  have inv1: "extendsStore st0 st' \<and> (\<forall>it \<in> set items1. itemSnapshot st0 (targetColor event) st' it)"
  proof (cases "materials event")
    case None
    with t show ?thesis by (auto simp: extendsStore_refl)
  next
    case (Some ms)
    with t have "tryAddAnimatableItems ms [] (targetColor event) st0 = (items1, st')" by simp
    from tryAddAnimatableItems_snapshots[OF assms(1,2) extendsStore_refl _ this]
    show ?thesis by simp
  qed
  show ?thesis
  proof (cases "rootObject event")
    case None
    with assms(3) t inv1 show ?thesis by (simp add: getAnimatableItems_def)
  next
    case (Some rootObj)
    with assms(3) t
    have "visitNodes (traverse rootObj) items1 (targetColor event) st' = Inr (items, st1)"
      by (simp add: getAnimatableItems_def)
    from visitNodes_snapshots[OF assms(1,2) _ _ this] inv1 show ?thesis by blast
  qed
qed

lemma doProgress_frame:
  "doProgress items p st = Inr st' \<Longrightarrow>
     materialAt st' = materialAt st
   \<and> (\<forall>a. (\<forall>it \<in> set items. color (materialAt st (itemMaterial it)) \<noteq> Some a)
          \<longrightarrow> colorAt st' a = colorAt st a)"
proof (induction items arbitrary: st)
  case Nil
  then show ?case by simp
next
  case (Cons item items)
  from Cons.prems obtain c where c: "color (materialAt st (itemMaterial item)) = Some c"
    by (cases "color (materialAt st (itemMaterial item))") (auto simp: doProgress_Cons)
  let ?st = "st\<lparr>colorAt := (colorAt st)(c :=
                  startPlusProgressDelta (colorAt st (startColor item))
                    (colorAt st (deltaColor item)) p)\<rparr>"
  from Cons.prems c have "doProgress items p ?st = Inr st'" by (simp add: doProgress_Cons)
  from Cons.IH[OF this] c show ?case by auto
qed

text \<open>
  A tick at a later store in which the items' own colour objects are as they were
  created and the materials still refer to the colour objects they had.
\<close>

lemma tick_after_creation:
  assumes "getAnimatableItems event st0 = Inr (items, st1)"
    and "colorsAllocated st0" and "targetColor event < nextColor st0"
    and cells: "\<forall>it \<in> set items. colorAt st (startColor it) = colorAt st1 (startColor it)
                  \<and> colorAt st (deltaColor it) = colorAt st1 (deltaColor it)"
    and refs: "\<forall>it \<in> set items. color (materialAt st (itemMaterial it))
                  = color (materialAt st0 (itemMaterial it))"
  shows "\<exists>st'. doProgress items p st = Inr st'
     \<and> (\<forall>it \<in> set items. \<forall>c. color (materialAt st0 (itemMaterial it)) = Some c \<longrightarrow>
           colorAt st' c = startPlusProgressDelta (colorAt st0 c)
                             (colorDifference (colorAt st0 (targetColor event)) (colorAt st0 c)) p)"
proof -
  let ?V = "\<lambda>c. startPlusProgressDelta (colorAt st0 c)
                 (colorDifference (colorAt st0 (targetColor event)) (colorAt st0 c)) p"
  let ?P = "{a. nextColor st0 \<le> a}"
  from getAnimatableItems_snapshots[OF assms(2,3,1)]
  have snap: "\<forall>it \<in> set items. itemSnapshot st0 (targetColor event) st1 it" by simp
  have pre: "\<forall>it \<in> set items. startColor it \<in> ?P \<and> deltaColor it \<in> ?P
      \<and> (\<exists>c. color (materialAt st (itemMaterial it)) = Some c \<and> c \<notin> ?P
            \<and> startPlusProgressDelta (colorAt st (startColor it)) (colorAt st (deltaColor it)) p = ?V c)"
  proof
    fix it assume it: "it \<in> set items"
    with snap obtain c where
      c: "color (materialAt st0 (itemMaterial it)) = Some c"
        "nextColor st0 \<le> startColor it" "nextColor st0 \<le> deltaColor it"
        "colorAt st1 (startColor it) = colorAt st0 c"
        "colorAt st1 (deltaColor it) = colorDifference (colorAt st0 (targetColor event)) (colorAt st0 c)"
      unfolding itemSnapshot_def by blast
    from c(1) assms(2) have "c < nextColor st0" by (auto simp: colorsAllocated_def)
    with c cells refs it
    show "startColor it \<in> ?P \<and> deltaColor it \<in> ?P
      \<and> (\<exists>c. color (materialAt st (itemMaterial it)) = Some c \<and> c \<notin> ?P
            \<and> startPlusProgressDelta (colorAt st (startColor it)) (colorAt st (deltaColor it)) p = ?V c)"
      by auto
  qed
  from doProgress_applies[OF pre] obtain st' where
    "doProgress items p st = Inr st'"
    "\<forall>it \<in> set items. \<forall>c. color (materialAt st (itemMaterial it)) = Some c \<longrightarrow> colorAt st' c = ?V c"
    by blast
  with refs show ?thesis by auto
qed

text \<open>
  Claim C9. Each item's \<open>startColor\<close> and \<open>deltaColor\<close> are colour objects of
  their own, distinct from the material's colour object: when the items have been built
  they hold the colour the material had at that point and the difference from it to
  the target colour. Writing to any colour object that existed when the items were built
  (the material's among them) leaves both as they are, and so does every later tick.
\<close>

theorem item_colors_are_snapshots:
  assumes "getAnimatableItems event st0 = Inr (items, st1)"
    and "colorsAllocated st0" and "targetColor event < nextColor st0"
    and "it \<in> set items"
  shows "\<exists>c. color (materialAt st0 (itemMaterial it)) = Some c
      \<and> startColor it \<noteq> c \<and> deltaColor it \<noteq> c
      \<and> colorAt st1 (startColor it) = colorAt st0 c
      \<and> colorAt st1 (deltaColor it)
          = colorDifference (colorAt st0 (targetColor event)) (colorAt st0 c)
      \<and> (\<forall>a x y z st. a < nextColor st0 \<longrightarrow>
            colorAt (setRGB a x y z st) (startColor it) = colorAt st (startColor it)
          \<and> colorAt (setRGB a x y z st) (deltaColor it) = colorAt st (deltaColor it))
      \<and> (\<forall>p st st'.
            (\<forall>it' \<in> set items. color (materialAt st (itemMaterial it'))
                                  = color (materialAt st0 (itemMaterial it')))
            \<and> doProgress items p st = Inr st' \<longrightarrow>
            colorAt st' (startColor it) = colorAt st (startColor it)
          \<and> colorAt st' (deltaColor it) = colorAt st (deltaColor it))"
proof -
  from getAnimatableItems_snapshots[OF assms(2,3,1)]
  have snap: "\<forall>it \<in> set items. itemSnapshot st0 (targetColor event) st1 it" by simp
  have alloc: "c < nextColor st0" if "it' \<in> set items"
    "color (materialAt st0 (itemMaterial it')) = Some c" for it' c
    using that(2) assms(2) by (auto simp: colorsAllocated_def)
  from snap assms(4) obtain c where
    c: "color (materialAt st0 (itemMaterial it)) = Some c"
      "nextColor st0 \<le> startColor it" "nextColor st0 \<le> deltaColor it"
      "colorAt st1 (startColor it) = colorAt st0 c"
      "colorAt st1 (deltaColor it) = colorDifference (colorAt st0 (targetColor event)) (colorAt st0 c)"
    unfolding itemSnapshot_def by blast
  from alloc[OF assms(4) c(1)] have clt: "c < nextColor st0" .
  have set: "\<forall>a x y z st. a < nextColor st0 \<longrightarrow>
            colorAt (setRGB a x y z st) (startColor it) = colorAt st (startColor it)
          \<and> colorAt (setRGB a x y z st) (deltaColor it) = colorAt st (deltaColor it)"
    using c(2,3) by (auto simp: setRGB_def)
  have tick: "\<forall>p st st'.
            (\<forall>it' \<in> set items. color (materialAt st (itemMaterial it'))
                                  = color (materialAt st0 (itemMaterial it')))
            \<and> doProgress items p st = Inr st' \<longrightarrow>
            colorAt st' (startColor it) = colorAt st (startColor it)
          \<and> colorAt st' (deltaColor it) = colorAt st (deltaColor it)"
  proof (intro allI impI, elim conjE)
    fix p st st'
    assume refs: "\<forall>it' \<in> set items. color (materialAt st (itemMaterial it'))
                                  = color (materialAt st0 (itemMaterial it'))"
      and run: "doProgress items p st = Inr st'"
    have notwritten: "\<forall>it' \<in> set items. color (materialAt st (itemMaterial it')) \<noteq> Some a"
      if "nextColor st0 \<le> a" for a
    proof
      fix it' assume it': "it' \<in> set items"
      show "color (materialAt st (itemMaterial it')) \<noteq> Some a"
      proof
        assume "color (materialAt st (itemMaterial it')) = Some a"
        with refs it' have "color (materialAt st0 (itemMaterial it')) = Some a" by simp
        from alloc[OF it' this] that show False by simp
      qed
    qed
    from doProgress_frame[OF run] notwritten[OF c(2)] notwritten[OF c(3)]
    show "colorAt st' (startColor it) = colorAt st (startColor it)
          \<and> colorAt st' (deltaColor it) = colorAt st (deltaColor it)"
      by blast
  qed
  from c clt set tick show ?thesis by (intro exI[of _ c]) auto
qed

lemma example_store_facts:
  "materialAt example_store 0 = example_material ''wood'' (Some 0)"
  "materialAt example_store 1 = example_material ''steel'' (Some 1)"
  "materialAt example_store (Suc 0) = example_material ''steel'' (Some 1)"
  "materialAt example_store 3 = example_material [] None"
  "nextColor example_store = 3"
  "colorAt example_store 0 = \<lparr>r = Fin 0, g = Fin 0, b = Fin 0\<rparr>"
  "colorAt example_store 1 = \<lparr>r = Fin (1 / 2), g = Fin (1 / 2), b = Fin (1 / 2)\<rparr>"
  "colorAt example_store 2 = \<lparr>r = Fin (3 / 4), g = Fin (1 / 2), b = Fin (1 / 4)\<rparr>"
  by (simp_all add: example_store_def)

lemma example_colors_allocated: "colorsAllocated example_store"
  by (simp add: colorsAllocated_def example_store_def example_material_def)

lemma example_getAnimatableItems:
  "getAnimatableItems example_event example_store = Inr (example_items, example_store1)"
  by (simp add: getAnimatableItems_def example_event_def example_scene_def
        tryAddAnimatableItems_Cons meshMaterials_def isColorMaterial_def example_store_facts
        example_material_def withItemColors_simps example_items_def example_store1_def)



lemma example_store1_facts:
  "materialAt example_store1 = materialAt example_store"
  "colorAt example_store1 4 = colorAt example_store 0"
  by (simp_all add: example_store1_def withItemColors_def example_store_def)

lemma example_doubles:
  "is_double 0" "is_double (1 / 4)" "is_double (1 / 2)" "is_double (3 / 4)"
  unfolding is_double_def by code_simp+

lemma example_exact:
  "exactColorDifference (colorAt example_store 2) (colorAt example_store 0)"
  by (simp add: exactColorDifference_def exactDifference_def example_store_facts example_doubles)

lemma example_meshes: "meshesHaveMaterial (rootObject example_event)"
  by (simp add: meshesHaveMaterial_def example_event_def example_scene_def)

theorem item_colors_are_snapshots_witness:
  "getAnimatableItems example_event example_store = Inr (example_items, example_store1)
   \<and> colorsAllocated example_store
   \<and> targetColor example_event < nextColor example_store
   \<and> \<lparr>startColor = 4, deltaColor = 3, itemMaterial = 0\<rparr> \<in> set example_items
   \<and> color (materialAt example_store 0) = Some 0
   \<and> colorAt example_store1 4 = colorAt example_store 0
   \<and> colorAt (setRGB 0 (Fin 1) (Fin 1) (Fin 1) example_store1) 4 = colorAt example_store1 4
   \<and> colorAt (setRGB 0 (Fin 1) (Fin 1) (Fin 1) example_store1) 3 = colorAt example_store1 3"
proof -
  have t: "targetColor example_event < nextColor example_store"
    by (simp add: example_event_def example_store_facts)
  have m: "\<lparr>startColor = 4, deltaColor = 3, itemMaterial = 0\<rparr> \<in> set example_items"
    by (simp add: example_items_def)
  have c0: "color (materialAt example_store 0) = Some 0"
    by (simp add: example_store_facts example_material_def)
  from item_colors_are_snapshots [OF example_getAnimatableItems example_colors_allocated t m]
  obtain c where
    r: "color (materialAt example_store 0) = Some c"
      "colorAt example_store1 4 = colorAt example_store c"
      "\<forall>a x y z st. a < nextColor example_store \<longrightarrow>
            colorAt (setRGB a x y z st) 4 = colorAt st 4
          \<and> colorAt (setRGB a x y z st) 3 = colorAt st 3"
    by auto
  from r(1) c0 have "c = 0" by simp
  moreover from r(3) have "colorAt (setRGB 0 (Fin 1) (Fin 1) (Fin 1) example_store1) 4
        = colorAt example_store1 4
      \<and> colorAt (setRGB 0 (Fin 1) (Fin 1) (Fin 1) example_store1) 3 = colorAt example_store1 3"
    by (simp add: example_store_facts)
  ultimately show ?thesis
    using r(2) example_getAnimatableItems example_colors_allocated t m c0 by simp
qed

lemma exact_progress_one:
  "exactDifference t s \<Longrightarrow> number_add s (number_mul (Fin 1) (number_sub t s)) = t"
  by (cases t; cases s) (simp_all add: exactDifference_def is_double_def)

lemma exact_color_progress_one:
  "exactColorDifference t s \<Longrightarrow> startPlusProgressDelta s (colorDifference t s) (Fin 1) = t"
  by (simp add: exactColorDifference_def startPlusProgressDelta_def colorDifference_def
        exact_progress_one)

lemma rounding_doubles:
  "roundToDouble (2 / 10) = Fin double_0_2"
  "roundToDouble (9 / 10) = Fin double_0_9"
  "is_double double_0_2"
  "is_double double_0_9"
  unfolding double_0_2_def double_0_9_def is_double_def by code_simp+

lemma rounding_arithmetic:
  "roundToDouble (double_0_9 - double_0_2) = Fin double_0_7"
  "roundToDouble double_0_7 = Fin double_0_7"
  "roundToDouble (double_0_2 + double_0_7) = Fin below_0_9"
  unfolding double_0_2_def double_0_9_def double_0_7_def below_0_9_def by code_simp+

lemma rounding_below: "below_0_9 < double_0_9"
  by (simp add: below_0_9_def double_0_9_def)

text \<open>
  Claim C1, as stated, fails where it says that at progress one the applied colour is
  the target colour exactly. The difference \<open>0.9 - 0.2\<close> is rounded to the double
  \<open>0.7\<close>, and \<open>0.2 + 0.7\<close> is rounded to the double just below \<open>0.9\<close>.
\<close>

theorem progress_one_misses_target:
  "roundToDouble (2 / 10) = Fin double_0_2 \<and> roundToDouble (9 / 10) = Fin double_0_9
   \<and> is_double double_0_2 \<and> is_double double_0_9
   \<and> colorAt rounding_store 0 = \<lparr>r = Fin double_0_2, g = Fin double_0_2, b = Fin double_0_2\<rparr>
   \<and> colorAt rounding_store (targetColor rounding_event)
       = \<lparr>r = Fin double_0_9, g = Fin double_0_9, b = Fin double_0_9\<rparr>
   \<and> colorAfterTick rounding_event rounding_store (Fin 1) 0
       = Some \<lparr>r = Fin below_0_9, g = Fin below_0_9, b = Fin below_0_9\<rparr>
   \<and> below_0_9 < double_0_9"
proof -
  have s: "materialAt rounding_store 0 = example_material ''paint'' (Some 0)"
    "nextColor rounding_store = 2"
    "colorAt rounding_store 0 = \<lparr>r = Fin double_0_2, g = Fin double_0_2, b = Fin double_0_2\<rparr>"
    "colorAt rounding_store (Suc 0) = \<lparr>r = Fin double_0_9, g = Fin double_0_9, b = Fin double_0_9\<rparr>"
    by (simp_all add: rounding_store_def)
  have items: "getAnimatableItems rounding_event rounding_store
      = Inr ([\<lparr>startColor = 3, deltaColor = 2, itemMaterial = 0\<rparr>],
             withItemColors 1 0 rounding_store)"
    by (simp add: getAnimatableItems_def rounding_event_def tryAddAnimatableItems_Cons
          isColorMaterial_def s example_material_def)
  have tick: "colorAfterTick rounding_event rounding_store (Fin 1) 0
       = Some \<lparr>r = Fin below_0_9, g = Fin below_0_9, b = Fin below_0_9\<rparr>"
    by (simp add: colorAfterTick_def items doProgress_Cons withItemColors_def s
          example_material_def startPlusProgressDelta_def colorDifference_def
          rounding_arithmetic)
  show ?thesis
    using tick rounding_doubles rounding_below s
    by (simp add: rounding_event_def)
qed

text \<open>
  Claim C1, amended. For every item of a batch and every progress value, a tick applies
  to the colour object of the item's material the colour start plus progress times
  delta, channel by channel, where start and delta are the values fixed when the item
  was built (the material's colour then, and the rounded difference from it to the
  target); the value does not depend on what the material's colour is at the time of the
  tick. At progress one the applied colour is the target colour whenever, in each
  channel, target minus start is itself a double.
\<close>

theorem tick_applies_start_plus_progress_delta:
  assumes "getAnimatableItems event st0 = Inr (items, st1)"
    and "colorsAllocated st0" and "targetColor event < nextColor st0"
    and "\<forall>it \<in> set items. colorAt st (startColor it) = colorAt st1 (startColor it)
                  \<and> colorAt st (deltaColor it) = colorAt st1 (deltaColor it)"
    and "\<forall>it \<in> set items. color (materialAt st (itemMaterial it))
                  = color (materialAt st0 (itemMaterial it))"
    and "it \<in> set items"
  shows "\<exists>st' c. doProgress items p st = Inr st'
      \<and> color (materialAt st (itemMaterial it)) = Some c
      \<and> colorAt st1 (startColor it) = colorAt st0 c
      \<and> colorAt st1 (deltaColor it)
          = colorDifference (colorAt st0 (targetColor event)) (colorAt st0 c)
      \<and> colorAt st' c
          = startPlusProgressDelta (colorAt st (startColor it)) (colorAt st (deltaColor it)) p
      \<and> (p = Fin 1 \<and> exactColorDifference (colorAt st0 (targetColor event)) (colorAt st0 c)
            \<longrightarrow> colorAt st' c = colorAt st0 (targetColor event))"
proof -
  from getAnimatableItems_snapshots[OF assms(2,3,1)] assms(6)
  have "itemSnapshot st0 (targetColor event) st1 it" by simp
  then obtain c where
    c: "color (materialAt st0 (itemMaterial it)) = Some c"
      "colorAt st1 (startColor it) = colorAt st0 c"
      "colorAt st1 (deltaColor it) = colorDifference (colorAt st0 (targetColor event)) (colorAt st0 c)"
    unfolding itemSnapshot_def by blast
  from tick_after_creation[OF assms(1-5), of p] obtain st' where
    run: "doProgress items p st = Inr st'"
    and app: "\<forall>it \<in> set items. \<forall>c. color (materialAt st0 (itemMaterial it)) = Some c \<longrightarrow>
           colorAt st' c = startPlusProgressDelta (colorAt st0 c)
                             (colorDifference (colorAt st0 (targetColor event)) (colorAt st0 c)) p"
    by blast
  from app assms(6) c(1)
  have val: "colorAt st' c = startPlusProgressDelta (colorAt st0 c)
               (colorDifference (colorAt st0 (targetColor event)) (colorAt st0 c)) p"
    by blast
  from assms(4,6) c(2,3)
  have cells: "colorAt st (startColor it) = colorAt st0 c"
    "colorAt st (deltaColor it) = colorDifference (colorAt st0 (targetColor event)) (colorAt st0 c)"
    by simp_all
  from assms(5,6) c(1) have ref: "color (materialAt st (itemMaterial it)) = Some c" by simp
  have one: "colorAt st' c = colorAt st0 (targetColor event)"
    if "p = Fin 1" "exactColorDifference (colorAt st0 (targetColor event)) (colorAt st0 c)"
    using that val by (simp add: exact_color_progress_one)
  from run ref c(2,3) val cells one show ?thesis by (intro exI[of _ st'] exI[of _ c]) simp
qed

theorem tick_applies_start_plus_progress_delta_witness:
  "getAnimatableItems example_event example_store = Inr (example_items, example_store1)
   \<and> colorsAllocated example_store
   \<and> targetColor example_event < nextColor example_store
   \<and> \<lparr>startColor = 4, deltaColor = 3, itemMaterial = 0\<rparr> \<in> set example_items
   \<and> exactColorDifference (colorAt example_store 2) (colorAt example_store 0)
   \<and> (\<exists>st'. doProgress example_items (Fin 1) example_store1 = Inr st'
         \<and> colorAt st' 0 = \<lparr>r = Fin (3 / 4), g = Fin (1 / 2), b = Fin (1 / 4)\<rparr>)"
proof -
  have t: "targetColor example_event < nextColor example_store" "targetColor example_event = 2"
    by (simp_all add: example_event_def example_store_facts)
  have m: "\<lparr>startColor = 4, deltaColor = 3, itemMaterial = 0\<rparr> \<in> set example_items"
    by (simp add: example_items_def)
  have refs: "\<forall>it \<in> set example_items. color (materialAt example_store1 (itemMaterial it))
                  = color (materialAt example_store (itemMaterial it))"
    by (simp add: example_store1_facts)
  from tick_applies_start_plus_progress_delta
         [OF example_getAnimatableItems example_colors_allocated t(1) _ refs m, of "Fin 1"]
  obtain st' c where
    r: "doProgress example_items (Fin 1) example_store1 = Inr st'"
      "color (materialAt example_store1 0) = Some c"
      "Fin 1 = Fin 1 \<and> exactColorDifference (colorAt example_store (targetColor example_event))
          (colorAt example_store c) \<longrightarrow> colorAt st' c = colorAt example_store (targetColor example_event)"
    by auto
  from r(2) have "c = 0"
    by (simp add: example_store1_facts example_store_facts example_material_def)
  with r(1,3) example_exact t(2)
  have "\<exists>st'. doProgress example_items (Fin 1) example_store1 = Inr st'
         \<and> colorAt st' 0 = \<lparr>r = Fin (3 / 4), g = Fin (1 / 2), b = Fin (1 / 4)\<rparr>"
    by (auto simp: example_store_facts)
  with example_getAnimatableItems example_colors_allocated t(1) m example_exact
  show ?thesis by simp
qed

text \<open>
  In the scenario of the specification the differences are exact: half-way the material
  has the colour \<open>(0.5, 0, 0)\<close>, at progress one the target colour.
\<close>

lemma scenario_doubles:
  "roundToDouble 1 = Fin 1" "roundToDouble (1 / 2) = Fin (1 / 2)"
  by code_simp+

lemma scenario_ticks:
  "colorAfterTick scenario_event scenario_store (Fin (1 / 2)) 0
     = Some \<lparr>r = Fin (1 / 2), g = Fin 0, b = Fin 0\<rparr>"
  "colorAfterTick scenario_event scenario_store (Fin 1) 0
     = Some \<lparr>r = Fin 1, g = Fin 0, b = Fin 0\<rparr>"
proof -
  have s: "materialAt scenario_store 0 = example_material ''m'' (Some 0)"
    "nextColor scenario_store = 2"
    "colorAt scenario_store 0 = \<lparr>r = Fin 0, g = Fin 0, b = Fin 0\<rparr>"
    "colorAt scenario_store (Suc 0) = \<lparr>r = Fin 1, g = Fin 0, b = Fin 0\<rparr>"
    by (simp_all add: scenario_store_def)
  have z: "roundToDouble 0 = Fin 0" by (simp add: roundToDouble_def)
  have items: "getAnimatableItems scenario_event scenario_store
      = Inr ([\<lparr>startColor = 3, deltaColor = 2, itemMaterial = 0\<rparr>],
             withItemColors 1 0 scenario_store)"
    by (simp add: getAnimatableItems_def scenario_event_def tryAddAnimatableItems_Cons
          isColorMaterial_def s example_material_def)
  show "colorAfterTick scenario_event scenario_store (Fin (1 / 2)) 0
     = Some \<lparr>r = Fin (1 / 2), g = Fin 0, b = Fin 0\<rparr>"
    by (simp add: colorAfterTick_def items doProgress_Cons withItemColors_def s
          example_material_def startPlusProgressDelta_def colorDifference_def
          scenario_doubles z)
  show "colorAfterTick scenario_event scenario_store (Fin 1) 0
     = Some \<lparr>r = Fin 1, g = Fin 0, b = Fin 0\<rparr>"
    by (simp add: colorAfterTick_def items doProgress_Cons withItemColors_def s
          example_material_def startPlusProgressDelta_def colorDifference_def
          scenario_doubles z)
qed

text \<open>
  Claim C2, as stated, fails where it calls the colour applied at progress one the
  target colour: with duration zero, start \<open>0.2\<close> and target \<open>0.9\<close> the material
  ends with the double just below \<open>0.9\<close>.
\<close>

theorem zero_duration_misses_target:
  "number_le (Fin 0) (Fin 0)
   \<and> colorAt rounding_store (targetColor rounding_event)
       = \<lparr>r = Fin double_0_9, g = Fin double_0_9, b = Fin double_0_9\<rparr>
   \<and> colorAfterChange log_createAnimation log_requestAnimationFrame rounding_event (Fin 0)
         rounding_store [] 0
       = Some \<lparr>r = Fin below_0_9, g = Fin below_0_9, b = Fin below_0_9\<rparr>
   \<and> below_0_9 < double_0_9"
proof -
  have s: "materialAt rounding_store 0 = example_material ''paint'' (Some 0)"
    "nextColor rounding_store = 2"
    "colorAt rounding_store 0 = \<lparr>r = Fin double_0_2, g = Fin double_0_2, b = Fin double_0_2\<rparr>"
    "colorAt rounding_store (Suc 0) = \<lparr>r = Fin double_0_9, g = Fin double_0_9, b = Fin double_0_9\<rparr>"
    by (simp_all add: rounding_store_def)
  have items: "getAnimatableItems rounding_event rounding_store
      = Inr ([\<lparr>startColor = 3, deltaColor = 2, itemMaterial = 0\<rparr>],
             withItemColors 1 0 rounding_store)"
    by (simp add: getAnimatableItems_def rounding_event_def tryAddAnimatableItems_Cons
          isColorMaterial_def s example_material_def)
  have "colorAfterChange log_createAnimation log_requestAnimationFrame rounding_event (Fin 0)
         rounding_store [] 0
       = Some \<lparr>r = Fin below_0_9, g = Fin below_0_9, b = Fin below_0_9\<rparr>"
    by (simp add: colorAfterChange_def changeColorLinearly_def items doProgress_Cons
          withItemColors_def s example_material_def startPlusProgressDelta_def
          colorDifference_def rounding_arithmetic)
  then show ?thesis
    using rounding_below s by (simp add: rounding_event_def)
qed

text \<open>
  Claim C2, amended. When the duration is at most zero, \<open>changeColorLinearly\<close> builds
  the items, applies progress one to every item at once and returns: the host state
  comes back unchanged whatever \<open>createAnimation\<close> and \<open>requestAnimationFrame\<close>
  would do, so no driver was created and no frame requested. Every item's material then
  has the colour start plus one times delta, which is the target colour whenever the
  difference target minus start is exact.
\<close>

theorem changeColorLinearly_without_duration:
  assumes "number_le duration (Fin 0)"
    and "meshesHaveMaterial (rootObject event)"
    and "colorsAllocated st" and "targetColor event < nextColor st"
  shows "\<exists>items st1 st2. getAnimatableItems event st = Inr (items, st1)
      \<and> doProgress items (Fin 1) st1 = Inr st2
      \<and> changeColorLinearly createAnimation requestAnimationFrame event duration st h
          = Inr (st2, h)
      \<and> (\<forall>it \<in> set items. \<forall>c. color (materialAt st (itemMaterial it)) = Some c \<longrightarrow>
            colorAt st2 c
              = startPlusProgressDelta (colorAt st c)
                  (colorDifference (colorAt st (targetColor event)) (colorAt st c)) (Fin 1)
            \<and> (exactColorDifference (colorAt st (targetColor event)) (colorAt st c)
                 \<longrightarrow> colorAt st2 c = colorAt st (targetColor event)))"
proof -
  from getAnimatableItems_materials[OF assms(2), of st] obtain items st1 where
    items: "getAnimatableItems event st = Inr (items, st1)"
    by blast
  from getAnimatableItems_snapshots[OF assms(3,4) items]
  have ext: "extendsStore st st1" by simp
  then have refs: "\<forall>it \<in> set items. color (materialAt st1 (itemMaterial it))
                  = color (materialAt st (itemMaterial it))"
    by (simp add: extendsStore_def)
  from tick_after_creation[OF items assms(3,4) _ refs, of "Fin 1"] obtain st2 where
    run: "doProgress items (Fin 1) st1 = Inr st2"
    and app: "\<forall>it \<in> set items. \<forall>c. color (materialAt st (itemMaterial it)) = Some c \<longrightarrow>
           colorAt st2 c = startPlusProgressDelta (colorAt st c)
                             (colorDifference (colorAt st (targetColor event)) (colorAt st c)) (Fin 1)"
    by auto
  have "changeColorLinearly createAnimation requestAnimationFrame event duration st h
          = Inr (st2, h)"
    using assms(1) items run by (simp add: changeColorLinearly_def)
  with items run app show ?thesis
    by (intro exI[of _ items] exI[of _ st1] exI[of _ st2]) (simp add: exact_color_progress_one)
qed

text \<open>With a positive duration the driver is created and its first tick requested.\<close>

lemma example_linear_schedules:
  "changeColorLinearly log_createAnimation log_requestAnimationFrame example_event (Fin 250)
     example_store []
   = Inr (example_store1, [''createAnimation'', ''requestAnimationFrame''])"
  by (simp add: changeColorLinearly_def example_getAnimatableItems log_createAnimation_def
        log_requestAnimationFrame_def)

theorem changeColorLinearly_without_duration_witness:
  "number_le (Fin 0) (Fin 0)
   \<and> meshesHaveMaterial (rootObject example_event)
   \<and> colorsAllocated example_store
   \<and> targetColor example_event < nextColor example_store
   \<and> (\<exists>st2. changeColorLinearly log_createAnimation log_requestAnimationFrame example_event
               (Fin 0) example_store [] = Inr (st2, [])
         \<and> colorAt st2 0 = \<lparr>r = Fin (3 / 4), g = Fin (1 / 2), b = Fin (1 / 4)\<rparr>)"
proof -
  have t: "targetColor example_event < nextColor example_store" "targetColor example_event = 2"
    by (simp_all add: example_event_def example_store_facts)
  have z: "number_le (Fin 0) (Fin 0)" by simp
  from changeColorLinearly_without_duration
         [OF z example_meshes example_colors_allocated t(1),
          of log_createAnimation log_requestAnimationFrame "[]"]
  obtain items st1 st2 where
    r: "getAnimatableItems example_event example_store = Inr (items, st1)"
      "changeColorLinearly log_createAnimation log_requestAnimationFrame example_event
               (Fin 0) example_store [] = Inr (st2, [])"
      "\<forall>it \<in> set items. \<forall>c. color (materialAt example_store (itemMaterial it)) = Some c \<longrightarrow>
            (exactColorDifference (colorAt example_store (targetColor example_event))
                 (colorAt example_store c)
                 \<longrightarrow> colorAt st2 c = colorAt example_store (targetColor example_event))"
    by blast
  from r(1) have "items = example_items" by (simp add: example_getAnimatableItems)
  then have "\<lparr>startColor = 4, deltaColor = 3, itemMaterial = 0\<rparr> \<in> set items"
    by (simp add: example_items_def)
  with r(3) have "color (materialAt example_store 0) = Some 0 \<longrightarrow>
       exactColorDifference (colorAt example_store (targetColor example_event)) (colorAt example_store 0)
       \<longrightarrow> colorAt st2 0 = colorAt example_store (targetColor example_event)"
    by fastforce
  with example_exact t(2) have "colorAt st2 0 = \<lparr>r = Fin (3 / 4), g = Fin (1 / 2), b = Fin (1 / 4)\<rparr>"
    by (simp add: example_store_facts example_material_def)
  with r(2) z example_meshes example_colors_allocated t(1) show ?thesis by auto
qed

end
